theory Spec2Isabelle
  imports Complex_Main "HOL-Library.Sublist" "HOL-Library.Multiset"
begin

section \<open>JavaScript strings\<close>

text \<open>
  A JavaScript string is a sequence of UTF-16 code units; \<open>includes\<close>, \<open>endsWith\<close>
  and \<open>length\<close> work on code units. ASCII literals of the source are written
  \<open>js ''...''\<close>; the Chinese literals are written as their code units.
  Numbers of the source are IEEE doubles; they are modelled as reals (scores, weights)
  or naturals (sizes, limits, message numbers), so rounding is not part of the model.
\<close>

type_synonym jsstring = "nat list"

definition js :: "string \<Rightarrow> jsstring" where
  "js s = map of_char s"

text \<open>\<open>s.includes(k)\<close> and \<open>s.endsWith(k)\<close>.\<close>

definition js_includes :: "jsstring \<Rightarrow> jsstring \<Rightarrow> bool" where
  "js_includes s k = sublist k s"

definition js_endsWith :: "jsstring \<Rightarrow> jsstring \<Rightarrow> bool" where
  "js_endsWith s k = suffix k s"

text \<open>
  \<open>s.toLowerCase()\<close> on the ASCII letters. The keyword tables of the source hold ASCII
  and CJK words only (CJK has no case); other cased letters are left as they are here.
\<close>

definition lower_unit :: "nat \<Rightarrow> nat" where
  "lower_unit c = (if 65 \<le> c \<and> c \<le> 90 then c + 32 else c)"

definition toLowerCase :: "jsstring \<Rightarrow> jsstring" where
  "toLowerCase s = map lower_unit s"

section \<open>Types of the service (types/index.ts)\<close>

record EmailAttachment =
  filename :: jsstring
  contentType :: jsstring
  size :: nat
  content :: "nat list option"

text \<open>
  \<open>EmailMessage\<close>: some fields are renamed (\<open>id\<close> is \<open>email_id\<close>, \<open>from\<close> and \<open>to\<close>
  are \<open>from_addr\<close> and \<open>to_addr\<close>, \<open>content\<close> is \<open>content_text\<close>, \<open>text\<close> is
  \<open>text_opt\<close>, \<open>isInvoice\<close> is \<open>isInvoice_flag\<close>); a \<open>Date\<close> is its epoch time in
  milliseconds; an optional field is an \<open>option\<close>.
\<close>

record EmailMessage =
  email_id :: jsstring
  messageId :: jsstring
  from_addr :: jsstring
  to_addr :: jsstring
  subject :: jsstring
  title :: jsstring
  body :: jsstring
  content_text :: jsstring
  text_opt :: "jsstring option"
  date :: int
  hasAttachments :: bool
  attachments :: "EmailAttachment list option"
  isInvoice_flag :: "bool option"
  createdAt :: int

record keyword_bucket =
  subjects :: "jsstring list"
  senders :: "jsstring list"
  amounts :: "jsstring list"
  companies :: "jsstring list"

record InvoiceKeywords =
  chinese :: keyword_bucket
  english :: keyword_bucket

record InvoiceScoreWeights =
  w_subject :: real
  w_sender :: real
  w_content :: real
  w_attachment :: real

section \<open>Regular expressions of the invoice patterns\<close>

text \<open>
  The five \<open>RegExp\<close> objects of \<open>InvoiceService.patterns\<close> are used through \<open>test\<close> only
  in the scoring; \<open>test\<close> asks whether some substring matches. The expressions are
  kept as syntax trees over classes of code units and matched by derivatives.
  All five carry the flag \<open>i\<close>: a pattern letter matches both of its ASCII cases.
\<close>

datatype rx =
    Never
  | Empty
  | Unit "nat \<Rightarrow> bool"
  | Alt rx rx
  | Cat rx rx
  | Rep rx

fun nullable :: "rx \<Rightarrow> bool" where
  "nullable Never = False"
| "nullable Empty = True"
| "nullable (Unit p) = False"
| "nullable (Alt r s) = (nullable r \<or> nullable s)"
| "nullable (Cat r s) = (nullable r \<and> nullable s)"
| "nullable (Rep r) = True"

text \<open>Alternation and concatenation that drop dead branches, so that derivatives stay small.\<close>

fun alt :: "rx \<Rightarrow> rx \<Rightarrow> rx" where
  "alt Never r = r"
| "alt r Never = r"
| "alt r s = Alt r s"

fun cat :: "rx \<Rightarrow> rx \<Rightarrow> rx" where
  "cat Never r = Never"
| "cat r Never = Never"
| "cat Empty r = r"
| "cat r s = Cat r s"

fun deriv :: "nat \<Rightarrow> rx \<Rightarrow> rx" where
  "deriv c Never = Never"
| "deriv c Empty = Never"
| "deriv c (Unit p) = (if p c then Empty else Never)"
| "deriv c (Alt r s) = alt (deriv c r) (deriv c s)"
| "deriv c (Cat r s) =
     (if nullable r then alt (cat (deriv c r) s) (deriv c s) else cat (deriv c r) s)"
| "deriv c (Rep r) = cat (deriv c r) (Rep r)"

fun rx_matches :: "rx \<Rightarrow> jsstring \<Rightarrow> bool" where
  "rx_matches r [] = nullable r"
| "rx_matches r (c # cs) = rx_matches (deriv c r) cs"

definition rx_test :: "rx \<Rightarrow> jsstring \<Rightarrow> bool" where
  "rx_test r s = rx_matches (Cat (Rep (Unit (\<lambda>c. True))) (Cat r (Rep (Unit (\<lambda>c. True))))) s"

definition ci :: "nat \<Rightarrow> rx" where
  "ci c = Unit (\<lambda>d. lower_unit d = lower_unit c)"

fun lit :: "jsstring \<Rightarrow> rx" where
  "lit [] = Empty"
| "lit (c # cs) = Cat (ci c) (lit cs)"

definition opt :: "rx \<Rightarrow> rx" where
  "opt r = Alt r Empty"

definition many1 :: "rx \<Rightarrow> rx" where
  "many1 r = Cat r (Rep r)"

definition is_digit :: "nat \<Rightarrow> bool" where
  "is_digit c = (48 \<le> c \<and> c \<le> 57)"

definition is_space :: "nat \<Rightarrow> bool" where
  "is_space c = (c \<in> {9, 10, 11, 12, 13, 32, 160, 5760, 8232, 8233, 8239, 8287, 12288, 65279}
      \<or> (8192 \<le> c \<and> c \<le> 8202))"

definition is_alnum_ci :: "nat \<Rightarrow> bool" where
  "is_alnum_ci c = (is_digit c \<or> (97 \<le> lower_unit c \<and> lower_unit c \<le> 122))"

fun cats :: "rx list \<Rightarrow> rx" where
  "cats [] = Empty"
| "cats (r # rs) = Cat r (cats rs)"

fun alts :: "rx list \<Rightarrow> rx" where
  "alts [] = Never"
| "alts (r # rs) = Alt r (alts rs)"

text \<open>The shared pieces \<open>[:\<dots>]?\<close> (ASCII or full-width colon) and \<open>\s*\<close>.\<close>

definition colon_opt :: rx where
  "colon_opt = opt (Unit (\<lambda>c. c = 58 \<or> c = 65306))"

definition spaces :: rx where
  "spaces = Rep (Unit is_space)"

record InvoicePatterns =
  invoiceNumber :: rx
  amount :: rx
  taxNumber :: rx
  date_pattern :: rx
  company :: rx

definition invoiceNumber_rx :: rx where
  "invoiceNumber_rx = alts [
     cats [lit [21457, 31080, 21495], opt (lit [30721]), colon_opt, spaces,
           many1 (Unit is_alnum_ci)],
     cats [lit (js ''Invoice''), spaces,
           alts [cats [lit (js ''No''), opt (lit (js ''.''))], lit (js ''Number'')],
           colon_opt, spaces, many1 (Unit is_alnum_ci)]]"

definition amount_rx :: rx where
  "amount_rx = cats [
     alts [lit [37329, 39069], lit [24635, 35745], lit [21512, 35745],
           lit (js ''Amount''), lit (js ''Total'')],
     colon_opt, spaces,
     opt (Unit (\<lambda>c. c = 65509 \<or> c = 36 \<or> c = 165)),
     many1 (Unit (\<lambda>c. is_digit c \<or> c = 44)), opt (lit (js ''.'')), Rep (Unit is_digit)]"

definition taxNumber_rx :: rx where
  "taxNumber_rx = cats [
     alts [lit [31246, 21495], cats [lit (js ''Tax''), spaces, lit (js ''ID'')]],
     colon_opt, spaces, many1 (Unit is_alnum_ci)]"

definition date_rx :: rx where
  "date_rx = cats [
     alts [lit [24320, 31080, 26085, 26399],
           cats [lit (js ''Invoice''), spaces, lit (js ''Date'')]],
     colon_opt, spaces,
     Unit is_digit, Unit is_digit, Unit is_digit, Unit is_digit,
     Unit (\<lambda>c. c = 45 \<or> c = 47 \<or> c = 24180),
     Unit is_digit, opt (Unit is_digit),
     Unit (\<lambda>c. c = 45 \<or> c = 47 \<or> c = 26376),
     Unit is_digit, opt (Unit is_digit),
     opt (lit [26085])]"

definition company_rx :: rx where
  "company_rx = cats [
     alts [lit [24320, 31080, 26041], lit [21457, 31080, 25260, 22836], lit (js ''Issuer'')],
     colon_opt, spaces,
     many1 (Unit (\<lambda>c. c \<notin> {65292, 44, 12290, 46, 10})),
     alts [lit [26377, 38480, 20844, 21496], lit [32929, 20221, 26377, 38480, 20844, 21496],
           lit [38598, 22242],
           cats [lit (js ''Ltd''), opt (lit (js ''.''))],
           cats [lit (js ''Inc''), opt (lit (js ''.''))],
           cats [lit (js ''Corp''), opt (lit (js ''.''))]]]"

section \<open>Configuration (config/index.ts)\<close>

record InvoiceConfig =
  cfg_confidenceThreshold :: real
  cfg_scoreWeights :: InvoiceScoreWeights

text \<open>
  \<open>config.invoice\<close> when the environment does not set
  \<open>INVOICE_CONFIDENCE_THRESHOLD\<close>: the threshold is \<open>parseFloat('0.5')\<close>.
\<close>

definition config_invoice :: InvoiceConfig where
  "config_invoice = \<lparr> cfg_confidenceThreshold = 0.5,
     cfg_scoreWeights = \<lparr> w_subject = 0.3, w_sender = 0.2, w_content = 0.3, w_attachment = 0.2 \<rparr> \<rparr>"

definition attachmentSizeLimit :: nat where
  "attachmentSizeLimit = 10 * 1024 * 1024"

section \<open>InvoiceService: the scoring engine\<close>

record InvoiceService =
  svc_keywords :: InvoiceKeywords
  patterns :: InvoicePatterns
  scoreWeights :: InvoiceScoreWeights
  confidenceThreshold :: real

definition getDefaultKeywords :: InvoiceKeywords where
  "getDefaultKeywords = \<lparr>
     chinese = \<lparr>
       subjects = [[21457, 31080], [30005, 23376, 21457, 31080], [22686, 20540, 31246, 21457, 31080]],
       senders = [[36130, 21153], [20250, 35745], [24320, 31080]],
       amounts = [[37329, 39069], [24635, 35745], [21512, 35745]],
       companies = [[26377, 38480, 20844, 21496], [32929, 20221, 26377, 38480, 20844, 21496],
                    [38598, 22242]] \<rparr>,
     english = \<lparr>
       subjects = [js ''invoice'', js ''bill'', js ''receipt''],
       senders = [js ''finance'', js ''accounting'', js ''billing''],
       amounts = [js ''amount'', js ''total'', js ''sum''],
       companies = [js ''Ltd.'', js ''Inc.'', js ''Corp.''] \<rparr> \<rparr>"

text \<open>The values the constructor assigns.\<close>

definition default_scoreWeights :: InvoiceScoreWeights where
  "default_scoreWeights =
     \<lparr> w_subject = 0.5, w_sender = 0.2, w_content = 0.1, w_attachment = 0.2 \<rparr>"

definition default_confidenceThreshold :: real where
  "default_confidenceThreshold = 0.3"

definition InvoiceService_new :: InvoiceService where
  "InvoiceService_new = \<lparr>
     svc_keywords = getDefaultKeywords,
     patterns = \<lparr> invoiceNumber = invoiceNumber_rx, amount = amount_rx, taxNumber = taxNumber_rx,
                  date_pattern = date_rx, company = company_rx \<rparr>,
     scoreWeights = default_scoreWeights,
     confidenceThreshold = default_confidenceThreshold \<rparr>"

text \<open>
  The two loop shapes of the analyzers: a loop that adds an increment for every hit,
  and a loop that adds it for the first hit and leaves (\<open>break\<close>).
\<close>

fun add_each :: "('a \<Rightarrow> bool) \<Rightarrow> real \<Rightarrow> 'a list \<Rightarrow> real \<Rightarrow> real" where
  "add_each hit inc [] score = score"
| "add_each hit inc (k # ks) score = add_each hit inc ks (if hit k then score + inc else score)"

fun add_first :: "('a \<Rightarrow> bool) \<Rightarrow> real \<Rightarrow> 'a list \<Rightarrow> real \<Rightarrow> real" where
  "add_first hit inc [] score = score"
| "add_first hit inc (k # ks) score = (if hit k then score + inc else add_first hit inc ks score)"

definition commonInvoiceKeywords :: "jsstring list" where
  "commonInvoiceKeywords =
     [[21457, 31080], [30005, 23376, 21457, 31080], [22686, 20540, 31246, 21457, 31080],
      js ''invoice'', js ''bill'', js ''receipt'']"

definition analyzeSubject :: "InvoiceService \<Rightarrow> jsstring \<Rightarrow> real" where
  "analyzeSubject s subj =
     (if subj = [] then 0
      else let subjectLower = toLowerCase subj;
               score1 = add_each (\<lambda>keyword. js_includes subj keyword) 0.5
                          (subjects (chinese (svc_keywords s))) 0;
               score2 = add_each (\<lambda>keyword. js_includes subjectLower (toLowerCase keyword)) 0.4
                          (subjects (english (svc_keywords s))) score1;
               score3 = add_first (\<lambda>keyword. js_includes subj keyword
                                       \<or> js_includes subjectLower (toLowerCase keyword)) 0.6
                          commonInvoiceKeywords score2
           in min score3 1.0)"

definition invoiceDomains :: "jsstring list" where
  "invoiceDomains = [js ''tax.gov.cn'', js ''chinatax.gov.cn'', js ''taobao.com'', js ''tmall.com'',
                     js ''jd.com'', js ''invoice'', js ''billing'', js ''finance'']"

definition analyzeSender :: "InvoiceService \<Rightarrow> jsstring \<Rightarrow> real" where
  "analyzeSender s sender =
     (if sender = [] then 0
      else let senderLower = toLowerCase sender;
               allSenderKeywords = senders (chinese (svc_keywords s)) @ senders (english (svc_keywords s));
               score1 = add_each (\<lambda>keyword. js_includes senderLower (toLowerCase keyword)) 0.4
                          allSenderKeywords 0;
               score2 = add_first (\<lambda>domain. js_includes senderLower domain) 0.6 invoiceDomains score1
           in min score2 1.0)"

definition analyzeContent :: "InvoiceService \<Rightarrow> jsstring \<Rightarrow> real" where
  "analyzeContent s cont =
     (if cont = [] then 0
      else let contentLower = toLowerCase cont;
               score1 = (if rx_test (invoiceNumber (patterns s)) cont then 0.4 else 0);
               score2 = (if rx_test (amount (patterns s)) cont then score1 + 0.3 else score1);
               score3 = (if rx_test (taxNumber (patterns s)) cont then score2 + 0.2 else score2);
               score4 = (if rx_test (date_pattern (patterns s)) cont then score3 + 0.2 else score3);
               score5 = (if rx_test (company (patterns s)) cont then score4 + 0.1 else score4);
               allAmountKeywords = amounts (chinese (svc_keywords s)) @ amounts (english (svc_keywords s));
               score6 = add_first (\<lambda>keyword. js_includes cont keyword
                                       \<or> js_includes contentLower (toLowerCase keyword)) 0.1
                          allAmountKeywords score5
           in min score6 1.0)"

definition invoiceFilenames :: "jsstring list" where
  "invoiceFilenames = [js ''invoice'', js ''bill'', js ''receipt'',
                       [21457, 31080], [36134, 21333], [25910, 25454]]"

text \<open>The body of the loop over the attachments: what one attachment adds to the score.\<close>

definition attachment_step :: "EmailAttachment \<Rightarrow> real \<Rightarrow> real" where
  "attachment_step a score =
     (let fname = toLowerCase (filename a);
          ctype = toLowerCase (contentType a);
          score1 = (if js_includes ctype (js ''pdf'') \<or> js_endsWith fname (js ''.pdf'')
                    then score + 0.8 else score);
          score2 = add_first (\<lambda>keyword. js_includes fname (toLowerCase keyword)) 0.6
                     invoiceFilenames score1
      in if js_includes ctype (js ''word'') \<or> js_includes ctype (js ''excel'')
            \<or> js_endsWith fname (js ''.doc'') \<or> js_endsWith fname (js ''.docx'')
            \<or> js_endsWith fname (js ''.xls'') \<or> js_endsWith fname (js ''.xlsx'')
         then score2 + 0.3 else score2)"

fun attachments_loop :: "EmailAttachment list \<Rightarrow> real \<Rightarrow> real" where
  "attachments_loop [] score = score"
| "attachments_loop (a # as) score = attachments_loop as (attachment_step a score)"

definition analyzeAttachments :: "EmailMessage \<Rightarrow> real" where
  "analyzeAttachments email =
     (if \<not> hasAttachments email then 0
      else case attachments email of
             None \<Rightarrow> 0
           | Some atts \<Rightarrow> if length atts = 0 then 0 else min (attachments_loop atts 0) 1.0)"

text \<open>The weighted sum computed by \<open>detectSingleInvoice\<close> and by \<open>analyzeEmail\<close>.\<close>

definition combined_score :: "InvoiceService \<Rightarrow> EmailMessage \<Rightarrow> real" where
  "combined_score s email =
     analyzeSubject s (subject email) * w_subject (scoreWeights s) +
     analyzeSender s (from_addr email) * w_sender (scoreWeights s) +
     analyzeContent s (body email) * w_content (scoreWeights s) +
     analyzeAttachments email * w_attachment (scoreWeights s)"

section \<open>CacheService\<close>

text \<open>
  The cache is a \<open>Map\<close> from key to the stored data and its expiry time; the clock
  (\<open>Date.now()\<close>) is an argument. \<open>set\<close> takes an optional \<open>ttl\<close>, and
  \<open>ttl || this.defaultTTL\<close> also replaces a \<open>ttl\<close> of 0 by the default.
\<close>

record 'v CacheService =
  cache :: "jsstring \<rightharpoonup> ('v \<times> int)"
  defaultTTL :: int

definition CacheService_new :: "'v CacheService" where
  "CacheService_new = \<lparr> cache = Map.empty, defaultTTL = 5 * 60 * 1000 \<rparr>"

definition cache_set :: "'v CacheService \<Rightarrow> int \<Rightarrow> jsstring \<Rightarrow> 'v \<Rightarrow> int option \<Rightarrow> 'v CacheService" where
  "cache_set cs now key data ttl =
     (let expireTime = now + (case ttl of None \<Rightarrow> defaultTTL cs
                                | Some t \<Rightarrow> if t = 0 then defaultTTL cs else t)
      in cs\<lparr> cache := (cache cs)(key \<mapsto> (data, expireTime)) \<rparr>)"

definition cache_get :: "'v CacheService \<Rightarrow> int \<Rightarrow> jsstring \<Rightarrow> 'v option \<times> 'v CacheService" where
  "cache_get cs now key =
     (case cache cs key of
        None \<Rightarrow> (None, cs)
      | Some (data, expireTime) \<Rightarrow>
          if now > expireTime then (None, cs\<lparr> cache := (cache cs)(key := None) \<rparr>)
          else (Some data, cs))"

text \<open>Decimal digits of a number, as \<open>toString\<close> and template literals print them.\<close>

fun digits :: "nat \<Rightarrow> jsstring" where
  "digits n = (if n < 10 then [48 + n] else digits (n div 10) @ [48 + n mod 10])"

definition getConnectionTestKey :: "jsstring \<Rightarrow> jsstring \<Rightarrow> nat \<Rightarrow> jsstring" where
  "getConnectionTestKey email server port =
     js ''connection_test:'' @ email @ js '':'' @ server @ js '':'' @ digits port"

text \<open>\<open>params.join(':')\<close>.\<close>

fun join_colon :: "jsstring list \<Rightarrow> jsstring" where
  "join_colon [] = []"
| "join_colon [p] = p"
| "join_colon (p # ps) = p @ js '':'' @ join_colon ps"

text \<open>
  The optional arguments \<open>from\<close> and \<open>since\<close> are pushed when they are truthy:
  present and not the empty string.
\<close>

definition truthy :: "jsstring option \<Rightarrow> bool" where
  "truthy v = (case v of None \<Rightarrow> False | Some x \<Rightarrow> x \<noteq> [])"

definition getEmailFetchKey ::
    "jsstring \<Rightarrow> jsstring \<Rightarrow> nat \<Rightarrow> jsstring option \<Rightarrow> jsstring option \<Rightarrow> jsstring" where
  "getEmailFetchKey email mailbox limit from since =
     (let params = [email, mailbox, digits limit];
          params1 = (if truthy from then params @ [js ''from:'' @ the from] else params);
          params2 = (if truthy since then params1 @ [js ''since:'' @ the since] else params1)
      in js ''email_fetch:'' @ join_colon params2)"

definition getInvoiceDetectionKey :: "jsstring \<Rightarrow> jsstring" where
  "getInvoiceDetectionKey emailId = js ''invoice_detection:'' @ emailId"

section \<open>InvoiceService: detection\<close>

text \<open>
  An exception is its message. What \<open>detectSingleInvoice\<close> takes from outside the
  service is gathered in \<open>detect_env\<close>: the clock, the storage switch of the
  configuration, and whether writing the invoice file fails (\<open>writeJsonFile\<close> rethrows).
\<close>

datatype js_error = Error jsstring

fun error_message :: "js_error \<Rightarrow> jsstring" where
  "error_message (Error m) = m"

record detect_env =
  now :: int
  enableLocalStorage :: bool
  writeJsonFile :: "js_error option"

text \<open>
  \<open>InvoiceInfo\<close> keeps the fields set in every case; the optional fields that
  \<open>extractInvoiceInfo\<close> takes from the captures of the patterns are left out.
\<close>

record InvoiceInfo =
  ii_emailId :: jsstring
  ii_confidenceScore :: real
  ii_createdAt :: int

record Scores =
  s_subject :: real
  s_sender :: real
  s_content :: real
  s_attachment :: real

record DetectionResult =
  emailId :: jsstring
  email :: EmailMessage
  isInvoice :: bool
  confidence :: real
  scores :: Scores
  invoiceInfo :: "InvoiceInfo option"
  detectedAt :: int
  error :: "jsstring option"

definition extractInvoiceInfo :: "detect_env \<Rightarrow> EmailMessage \<Rightarrow> real \<Rightarrow> InvoiceInfo" where
  "extractInvoiceInfo env e confidenceScore =
     \<lparr> ii_emailId = email_id e, ii_confidenceScore = confidenceScore, ii_createdAt = now env \<rparr>"

definition saveInvoiceInfo :: "detect_env \<Rightarrow> js_error + unit" where
  "saveInvoiceInfo env =
     (if \<not> enableLocalStorage env then Inr ()
      else case writeJsonFile env of None \<Rightarrow> Inr () | Some err \<Rightarrow> Inl err)"

definition detectSingleInvoice ::
    "InvoiceService \<Rightarrow> detect_env \<Rightarrow> DetectionResult CacheService \<Rightarrow> EmailMessage
       \<Rightarrow> DetectionResult \<times> DetectionResult CacheService" where
  "detectSingleInvoice s env cs e =
     (let cacheKey = getInvoiceDetectionKey (email_id e) in
      case cache_get cs (now env) cacheKey of
        (Some cachedResult, cs1) \<Rightarrow> (cachedResult, cs1)
      | (None, cs1) \<Rightarrow>
          (let subjectScore = analyzeSubject s (subject e);
               senderScore = analyzeSender s (from_addr e);
               contentScore = analyzeContent s (body e);
               attachmentScore = analyzeAttachments e;
               totalScore = subjectScore * w_subject (scoreWeights s) +
                            senderScore * w_sender (scoreWeights s) +
                            contentScore * w_content (scoreWeights s) +
                            attachmentScore * w_attachment (scoreWeights s);
               isInv = (totalScore \<ge> confidenceThreshold s);
               info = (if isInv then Some (extractInvoiceInfo env e totalScore) else None)
           in (case (if isInv then saveInvoiceInfo env else Inr ()) of
                 Inr u \<Rightarrow>
                   (let result = \<lparr> emailId = email_id e, email = e, isInvoice = isInv,
                          confidence = totalScore,
                          scores = \<lparr> s_subject = subjectScore, s_sender = senderScore,
                                     s_content = contentScore, s_attachment = attachmentScore \<rparr>,
                          invoiceInfo = info, detectedAt = now env, error = None \<rparr>
                    in (result, cache_set cs1 (now env) cacheKey result (Some (30 * 60 * 1000))))
               | Inl err \<Rightarrow>
                   (let result = \<lparr> emailId = email_id e, email = e, isInvoice = False,
                          confidence = 0,
                          scores = \<lparr> s_subject = 0, s_sender = 0, s_content = 0,
                                     s_attachment = 0 \<rparr>,
                          invoiceInfo = None, detectedAt = now env,
                          error = Some (error_message err) \<rparr>
                    in (result, cache_set cs1 (now env) cacheKey result (Some (5 * 60 * 1000)))))))"

text \<open>The batch path: \<open>analyzeEmail\<close> and \<open>detectInvoices\<close> read the threshold of the configuration.\<close>

record EmailAnalysis =
  a_isInvoice :: bool
  a_confidenceScore :: real
  a_invoiceInfo :: InvoiceInfo

definition analyzeEmail ::
    "InvoiceService \<Rightarrow> InvoiceConfig \<Rightarrow> detect_env \<Rightarrow> EmailMessage \<Rightarrow> EmailAnalysis" where
  "analyzeEmail s cfg env e =
     (let subjectScore = analyzeSubject s (subject e);
          senderScore = analyzeSender s (from_addr e);
          contentScore = analyzeContent s (body e);
          attachmentScore = analyzeAttachments e;
          confidenceScore = subjectScore * w_subject (scoreWeights s) +
                            senderScore * w_sender (scoreWeights s) +
                            contentScore * w_content (scoreWeights s) +
                            attachmentScore * w_attachment (scoreWeights s)
      in \<lparr> a_isInvoice = (confidenceScore \<ge> cfg_confidenceThreshold cfg),
           a_confidenceScore = confidenceScore,
           a_invoiceInfo = extractInvoiceInfo env e confidenceScore \<rparr>)"

text \<open>
  \<open>detectInvoices\<close>: the loop marks and collects the messages that \<open>analyzeEmail\<close>
  classifies as invoices; the details carry the fixed confidence 0.8.
\<close>

record InvoiceDetail =
  d_emailId :: jsstring
  d_isInvoice :: bool
  d_subject :: jsstring
  d_confidence :: real

record InvoiceDetectionResult =
  invoices :: "EmailMessage list"
  invoice_count :: nat
  details :: "InvoiceDetail list"

fun collect_invoices ::
    "InvoiceService \<Rightarrow> InvoiceConfig \<Rightarrow> detect_env \<Rightarrow> EmailMessage list \<Rightarrow> EmailMessage list
       \<Rightarrow> EmailMessage list" where
  "collect_invoices s cfg env [] invoiceEmails = invoiceEmails"
| "collect_invoices s cfg env (e # es) invoiceEmails =
     (let detection = analyzeEmail s cfg env e
      in collect_invoices s cfg env es
           (if a_isInvoice detection
               \<and> a_confidenceScore detection \<ge> cfg_confidenceThreshold cfg
            then invoiceEmails @ [e\<lparr> isInvoice_flag := Some True \<rparr>]
            else invoiceEmails))"

definition detectInvoices ::
    "InvoiceService \<Rightarrow> InvoiceConfig \<Rightarrow> detect_env \<Rightarrow> EmailMessage list \<Rightarrow> InvoiceDetectionResult" where
  "detectInvoices s cfg env es =
     (let invoiceEmails = collect_invoices s cfg env es []
      in \<lparr> invoices = invoiceEmails, invoice_count = length invoiceEmails,
           details = map (\<lambda>e. \<lparr> d_emailId = email_id e, d_isInvoice = True,
                                   d_subject = subject e, d_confidence = 0.8 \<rparr>) invoiceEmails \<rparr>)"

section \<open>EmailService: the message normalizer\<close>

text \<open>
  What \<open>simpleParser\<close> of the mail parsing library returns, as far as
  \<open>parseEmailMessage\<close> reads it. A field the library leaves undefined is \<open>None\<close>;
  \<open>html\<close> is \<open>false\<close> or undefined when there is no HTML part.
\<close>

record ParsedAttachment =
  pa_filename :: "jsstring option"
  pa_contentType :: jsstring
  pa_size :: nat
  pa_content :: "nat list"

record address_object =
  address :: "jsstring option"
  address_text :: "jsstring option"

datatype address_info =
    NoAddress
  | AddressList "address_object list"
  | AddressObject address_object
  | AddressOther jsstring

record ParsedMail =
  p_attachments :: "ParsedAttachment list option"
  p_subject :: "jsstring option"
  p_text :: "jsstring option"
  p_html :: "jsstring option"
  p_from :: address_info
  p_to :: address_info
  p_date :: "int option"
  p_messageId :: "jsstring option"

text \<open>\<open>a || d\<close> for an optional string \<open>a\<close>: undefined and the empty string give \<open>d\<close>.\<close>

definition or_else :: "jsstring option \<Rightarrow> jsstring \<Rightarrow> jsstring" where
  "or_else a d = (case a of None \<Rightarrow> d | Some x \<Rightarrow> if x = [] then d else x)"

fun join_comma :: "jsstring list \<Rightarrow> jsstring" where
  "join_comma [] = []"
| "join_comma [p] = p"
| "join_comma (p # ps) = p @ js '', '' @ join_comma ps"

fun extractEmailAddress :: "address_info \<Rightarrow> jsstring" where
  "extractEmailAddress NoAddress = []"
| "extractEmailAddress (AddressList addrs) =
     join_comma (map (\<lambda>addr. or_else (address addr) (or_else (address_text addr) [])) addrs)"
| "extractEmailAddress (AddressObject addr) = or_else (address addr) (or_else (address_text addr) [])"
| "extractEmailAddress (AddressOther x) = x"

text \<open>
  \<open>parseEmailMessage\<close>. The fresh identifier (\<open>uuidv4()\<close>) and the clock (\<open>new Date()\<close>)
  are arguments. The loop pushes an attachment when its size does not exceed
  \<open>config.email.attachmentSizeLimit\<close>.
\<close>

definition pushed_attachment :: "ParsedAttachment \<Rightarrow> EmailAttachment" where
  "pushed_attachment a =
     \<lparr> filename = or_else (pa_filename a) (js ''unknown''), contentType = pa_contentType a,
       size = pa_size a, content = Some (pa_content a) \<rparr>"

fun keep_attachments :: "ParsedAttachment list \<Rightarrow> EmailAttachment list \<Rightarrow> EmailAttachment list" where
  "keep_attachments [] acc = acc"
| "keep_attachments (a # as) acc =
     keep_attachments as
       (if pa_size a \<le> attachmentSizeLimit then acc @ [pushed_attachment a] else acc)"

definition parseEmailMessage :: "jsstring \<Rightarrow> int \<Rightarrow> ParsedMail \<Rightarrow> nat \<Rightarrow> EmailMessage" where
  "parseEmailMessage uuid clock parsed seqno =
     (let atts = (case p_attachments parsed of
                    None \<Rightarrow> []
                  | Some pas \<Rightarrow> if length pas > 0 then keep_attachments pas [] else []);
          subj = or_else (p_subject parsed) [];
          bdy = or_else (p_text parsed) (or_else (p_html parsed) []);
          frm = extractEmailAddress (p_from parsed);
          rcp = extractEmailAddress (p_to parsed);
          dt = (case p_date parsed of None \<Rightarrow> clock | Some d \<Rightarrow> d);
          mid = or_else (p_messageId parsed) (js ''seq-'' @ digits seqno)
      in \<lparr> email_id = uuid, messageId = mid, from_addr = frm, to_addr = rcp,
           subject = subj, title = subj, body = bdy, content_text = bdy, text_opt = None,
           date = dt, hasAttachments = (length atts > 0), attachments = Some atts,
           isInvoice_flag = None, createdAt = clock \<rparr>)"

section \<open>EmailService: the transport and the retrieval filter\<close>

datatype EmailProtocol = IMAP | POP3

datatype ConnectionStatus = DISCONNECTED | CONNECTING | CONNECTED | AUTHENTICATED | ERROR

record EmailQueryParams =
  email_address :: jsstring
  password :: jsstring
  imap_server :: jsstring
  port :: nat
  use_ssl :: bool
  mail_box :: "jsstring option"
  protocol :: "EmailProtocol option"
  limit :: "nat option"
  q_from :: "jsstring option"
  since :: "jsstring option"
  q_to :: "jsstring option"

record EmailFetchResult =
  success :: bool
  emails :: "EmailMessage list"
  total :: nat
  message :: jsstring

text \<open>
  The state the fetch works on: the two connection handles of the service (\<open>True\<close> when
  the field holds a client object), its protocol and status fields, and the result
  cache of the module.
\<close>

record EmailService =
  imap :: bool
  pop3 :: bool
  currentProtocol :: EmailProtocol
  connectionStatus :: ConnectionStatus
  cacheService :: "EmailFetchResult CacheService"

text \<open>A search criterion handed to the IMAP client; a \<open>Date\<close> that is invalid is \<open>None\<close>.\<close>

datatype criterion = CritALL | CritFROM jsstring | CritTO jsstring | CritSINCE "int option"

text \<open>The value a POP3 \<open>list\<close> event carries as \<open>returnValue\<close>, with its numbers read.\<close>

datatype pop3_list_value =
    ListArray "nat option list"
  | ListObject "(nat \<times> nat) list"
  | ListOther

record pop3_list_event =
  resp :: bool
  returnValue :: pop3_list_value
  list_data :: jsstring

text \<open>
  Everything outside the service that a fetch meets: the clock and the date library,
  the identifier source, the mail parser, the storage, and the answers of the mail
  server to each protocol command (\<open>None\<close> or \<open>Inr\<close> when the command succeeds).
  \<open>w_moment s\<close> is \<open>moment(s, 'YYYY/MM/DD HH:mm')\<close>, \<open>None\<close> when that is not a valid
  moment; \<open>w_dayStart t\<close> is \<open>startOf('day')\<close> of the moment \<open>t\<close>. The IMAP mailbox
  holds at most one message, with its sequence number and raw text, under a UID.
\<close>

record world =
  w_now :: int
  w_moment :: "jsstring \<Rightarrow> int option"
  w_dayStart :: "int \<Rightarrow> int"
  w_uuid :: "nat \<Rightarrow> jsstring"
  w_simpleParser :: "jsstring \<Rightarrow> js_error + ParsedMail"
  w_enableLocalStorage :: bool
  w_saveEmails :: "js_error option"
  w_imap_connect :: "js_error option"
  w_openBox :: "jsstring \<Rightarrow> js_error option"
  w_search :: "criterion list \<Rightarrow> js_error + nat list"
  w_mailbox :: "nat \<Rightarrow> (nat \<times> jsstring) option"
  w_imap_fetch_error :: "js_error option"
  w_pop3_connect :: "js_error option"
  w_pop3_list :: "js_error + pop3_list_event"
  w_pop3_retr :: "nat \<Rightarrow> jsstring + jsstring"

definition connectIMAP :: "world \<Rightarrow> EmailService \<Rightarrow> js_error option \<times> EmailService" where
  "connectIMAP w st =
     (let st1 = st\<lparr> currentProtocol := IMAP, imap := True \<rparr> in
      case w_imap_connect w of
        None \<Rightarrow> (None, st1\<lparr> connectionStatus := AUTHENTICATED \<rparr>)
      | Some err \<Rightarrow> (Some err, st1\<lparr> connectionStatus := ERROR \<rparr>))"

definition connectPOP3 :: "world \<Rightarrow> EmailService \<Rightarrow> js_error option \<times> EmailService" where
  "connectPOP3 w st =
     (let st1 = st\<lparr> currentProtocol := POP3, pop3 := True \<rparr> in
      case w_pop3_connect w of
        None \<Rightarrow> (None, st1\<lparr> connectionStatus := AUTHENTICATED \<rparr>)
      | Some err \<Rightarrow> (Some err, st1\<lparr> connectionStatus := ERROR \<rparr>))"

definition disconnectIMAP :: "EmailService \<Rightarrow> EmailService" where
  "disconnectIMAP st =
     (if imap st then st\<lparr> imap := False, connectionStatus := DISCONNECTED \<rparr> else st)"

definition disconnectPOP3 :: "EmailService \<Rightarrow> EmailService" where
  "disconnectPOP3 st =
     (if pop3 st then st\<lparr> pop3 := False, connectionStatus := DISCONNECTED \<rparr> else st)"

definition disconnect :: "EmailService \<Rightarrow> EmailService" where
  "disconnect st = (if currentProtocol st = POP3 then disconnectPOP3 st else disconnectIMAP st)"

text \<open>\<open>queryParams.limit || 10\<close> and \<open>queryParams.mail_box || 'INBOX'\<close>.\<close>

definition limit_or_10 :: "EmailQueryParams \<Rightarrow> nat" where
  "limit_or_10 q = (case limit q of None \<Rightarrow> 10 | Some n \<Rightarrow> if n = 0 then 10 else n)"

definition mail_box_or_INBOX :: "EmailQueryParams \<Rightarrow> jsstring" where
  "mail_box_or_INBOX q = or_else (mail_box q) (js ''INBOX'')"

text \<open>The cache key that \<open>fetchEmails\<close> builds for a request.\<close>

definition fetch_cacheKey :: "EmailQueryParams \<Rightarrow> jsstring" where
  "fetch_cacheKey q =
     getEmailFetchKey (email_address q) (mail_box_or_INBOX q) (limit_or_10 q) (q_from q) (since q)"

definition buildSearchCriteria :: "world \<Rightarrow> EmailQueryParams \<Rightarrow> criterion list" where
  "buildSearchCriteria w params =
     (let criteria = [CritALL];
          criteria1 = (if truthy (q_from params) then criteria @ [CritFROM (the (q_from params))]
                       else criteria);
          criteria2 = (if truthy (q_to params) then criteria1 @ [CritTO (the (q_to params))]
                       else criteria1);
          criteria3 = (if truthy (since params)
                       then criteria2 @ [CritSINCE (map_option (w_dayStart w)
                                                 (w_moment w (the (since params))))]
                       else criteria2 @ [CritSINCE (Some (w_dayStart w (w_now w)))])
      in if length criteria3 > 1 then tl criteria3 else criteria3)"

definition err_imap_not_connected :: js_error where
  "err_imap_not_connected = Error (js ''IMAP'' @ [36830, 25509, 26410, 24314, 31435])"

definition openBox :: "world \<Rightarrow> EmailService \<Rightarrow> jsstring \<Rightarrow> js_error option" where
  "openBox w st mailbox = (if \<not> imap st then Some err_imap_not_connected else w_openBox w mailbox)"

text \<open>\<open>searchEmails\<close> answers with the UIDs reversed, the latest first.\<close>

definition searchEmails :: "world \<Rightarrow> EmailService \<Rightarrow> criterion list \<Rightarrow> js_error + nat list" where
  "searchEmails w st criteria =
     (if \<not> imap st then Inl err_imap_not_connected
      else case w_search w criteria of Inl err \<Rightarrow> Inl err | Inr uids \<Rightarrow> Inr (rev uids))"

text \<open>Newest first: \<open>emails.sort((a, b) => b.date.getTime() - a.date.getTime())\<close>, a stable sort.\<close>

definition sort_newest_first :: "EmailMessage list \<Rightarrow> EmailMessage list" where
  "sort_newest_first es = sort_key (\<lambda>e. - date e) es"

text \<open>
  \<open>fetchEmailDetails\<close> (IMAP): every message the server sends for the UIDs is parsed;
  a message whose parsing fails is logged and left out. The handlers are taken in
  the order of the messages.
\<close>

fun parse_fetched :: "world \<Rightarrow> (nat \<times> jsstring) list \<Rightarrow> EmailMessage list \<Rightarrow> EmailMessage list" where
  "parse_fetched w [] acc = acc"
| "parse_fetched w ((seqno, buffer) # ms) acc =
     (case w_simpleParser w buffer of
        Inr parsed \<Rightarrow>
          parse_fetched w ms (acc @ [parseEmailMessage (w_uuid w seqno) (w_now w) parsed seqno])
      | Inl err \<Rightarrow> parse_fetched w ms acc)"

definition fetchEmailDetails :: "world \<Rightarrow> EmailService \<Rightarrow> nat list \<Rightarrow> js_error + EmailMessage list" where
  "fetchEmailDetails w st uids =
     (if \<not> imap st then Inl err_imap_not_connected
      else case w_imap_fetch_error w of
             Some err \<Rightarrow> Inl err
           | None \<Rightarrow> Inr (sort_newest_first (parse_fetched w (List.map_filter (w_mailbox w) uids) [])))"

text \<open>\<open>moment(email.date).isSameOrAfter(sinceTime)\<close>; an invalid \<open>sinceTime\<close> is after nothing.\<close>

definition isSameOrAfter :: "int \<Rightarrow> int option \<Rightarrow> bool" where
  "isSameOrAfter emailTime sinceTime = (case sinceTime of None \<Rightarrow> False | Some t \<Rightarrow> emailTime \<ge> t)"

text \<open>The second time filter of \<open>fetchEmailsIMAP\<close>, applied when \<open>since\<close> is given.\<close>

definition imap_since_filter :: "world \<Rightarrow> EmailQueryParams \<Rightarrow> EmailMessage list \<Rightarrow> EmailMessage list" where
  "imap_since_filter w q es =
     (if truthy (since q)
      then filter (\<lambda>e. isSameOrAfter (date e) (w_moment w (the (since q)))) es
      else es)"

definition msg_none_found :: jsstring where
  "msg_none_found = [27809, 26377, 25214, 21040, 31526, 21512, 26465, 20214, 30340, 37038, 20214]"

definition msg_fetched :: "nat \<Rightarrow> jsstring" where
  "msg_fetched n = [25104, 21151, 33719, 21462, 32] @ digits n @ [32, 23553, 37038, 20214]"

definition msg_fetch_failed :: "js_error \<Rightarrow> jsstring" where
  "msg_fetch_failed err = [33719, 21462, 37038, 20214, 22833, 36133, 58, 32] @ error_message err"

text \<open>Saving the messages when the storage is switched on; \<open>saveEmails\<close> may throw.\<close>

definition save_if_enabled :: "world \<Rightarrow> js_error option" where
  "save_if_enabled w = (if w_enableLocalStorage w then w_saveEmails w else None)"

definition cache_result :: "world \<Rightarrow> EmailService \<Rightarrow> jsstring \<Rightarrow> EmailFetchResult \<Rightarrow> int \<Rightarrow> EmailService" where
  "cache_result w st cacheKey result ttl =
     st\<lparr> cacheService := cache_set (cacheService st) (w_now w) cacheKey result (Some ttl) \<rparr>"

definition fetchEmailsIMAP ::
    "world \<Rightarrow> EmailQueryParams \<Rightarrow> jsstring \<Rightarrow> EmailService \<Rightarrow> (js_error + EmailFetchResult) \<times> EmailService" where
  "fetchEmailsIMAP w q cacheKey st =
     (case connectIMAP w st of
        (Some err, st1) \<Rightarrow> (Inl err, st1)
      | (None, st1) \<Rightarrow>
     (case openBox w st1 (mail_box_or_INBOX q) of
        Some err \<Rightarrow> (Inl err, st1)
      | None \<Rightarrow>
     (let searchCriteria = buildSearchCriteria w q in
      case searchEmails w st1 searchCriteria of
        Inl err \<Rightarrow> (Inl err, st1)
      | Inr messageIds \<Rightarrow>
     (if length messageIds = 0
      then (let st2 = disconnect st1;
                result = \<lparr> success = True, emails = [], total = 0, message = msg_none_found \<rparr>
            in (Inr result, cache_result w st2 cacheKey result (2 * 60 * 1000)))
      else
     (let limitedIds = take (limit_or_10 q) messageIds in
      case fetchEmailDetails w st1 limitedIds of
        Inl err \<Rightarrow> (Inl err, st1)
      | Inr fetched \<Rightarrow>
     (let es = imap_since_filter w q fetched;
          st2 = disconnect st1
      in case save_if_enabled w of
           Some err \<Rightarrow> (Inl err, st2)
         | None \<Rightarrow>
             (let result = \<lparr> success = True, emails = es, total = length es,
                              message = msg_fetched (length es) \<rparr>
              in (Inr result, cache_result w st2 cacheKey result (3 * 60 * 1000)))))))))"

subsection \<open>The sequential protocol (POP3)\<close>

record pop3_entry =
  msgNumber :: nat
  entry_size :: nat

text \<open>\<open>parsePOP3List\<close>: the lines of the raw answer that match \<open>/^(\d+)\s+(\d+)$/\<close>.\<close>

fun split_crlf :: "jsstring \<Rightarrow> jsstring \<Rightarrow> jsstring list" where
  "split_crlf cur [] = [cur]"
| "split_crlf cur [c] = [cur @ [c]]"
| "split_crlf cur (c # d # rest) =
     (if c = 13 \<and> d = 10 then cur # split_crlf [] rest else split_crlf (cur @ [c]) (d # rest))"

definition parseInt :: "jsstring \<Rightarrow> nat" where
  "parseInt ds = fold (\<lambda>c n. 10 * n + (c - 48)) ds 0"

definition match_list_line :: "jsstring \<Rightarrow> pop3_entry option" where
  "match_list_line line =
     (let d1 = takeWhile is_digit line;
          rest = dropWhile is_digit line;
          ws = takeWhile is_space rest;
          d2 = dropWhile is_space rest
      in if d1 \<noteq> [] \<and> ws \<noteq> [] \<and> d2 \<noteq> [] \<and> list_all is_digit d2
         then Some \<lparr> msgNumber = parseInt d1, entry_size = parseInt d2 \<rparr> else None)"

definition parsePOP3List :: "jsstring \<Rightarrow> pop3_entry list" where
  "parsePOP3List dataStr =
     (if dataStr = [] then [] else List.map_filter match_list_line (split_crlf [] dataStr))"

text \<open>
  The message list taken from a \<open>list\<close> event: from an array (index 0 and empty
  entries are skipped), from an object, or else from the raw answer.
\<close>

definition emailList_of :: "pop3_list_event \<Rightarrow> pop3_entry list" where
  "emailList_of ev =
     (case returnValue ev of
        ListArray sizes \<Rightarrow>
          List.map_filter
            (\<lambda>(index, sz). if index = 0 then None
                            else map_option (\<lambda>n. \<lparr> msgNumber = index, entry_size = n \<rparr>) sz)
            (zip [0..<length sizes] sizes)
      | ListObject entries \<Rightarrow> map (\<lambda>(msgNum, sz). \<lparr> msgNumber = msgNum, entry_size = sz \<rparr>) entries
      | ListOther \<Rightarrow> parsePOP3List (list_data ev))"

definition err_pop3_not_connected :: js_error where
  "err_pop3_not_connected = Error (js ''POP3'' @ [36830, 25509, 26410, 24314, 31435])"

text \<open>
  \<open>retrievePOP3Email\<close>: the answer of the server to \<open>RETR\<close> is the text of the message
  (\<open>Inr\<close>) or, with a false status, the raw answer (\<open>Inl\<close>), which becomes the error.
\<close>

definition retrievePOP3Email :: "world \<Rightarrow> EmailService \<Rightarrow> nat \<Rightarrow> js_error + jsstring" where
  "retrievePOP3Email w st n =
     (if \<not> pop3 st then Inl err_pop3_not_connected
      else case w_pop3_retr w n of
             Inr emailContent \<Rightarrow> Inr emailContent
           | Inl rawData \<Rightarrow>
               Inl (Error ([33719, 21462, 37038, 20214, 20869, 23481, 22833, 36133, 58, 32]
                           @ rawData)))"

text \<open>
  One round of the loop of \<open>fetchPOP3EmailDetails\<close>: retrieve, parse, normalize; an
  exception of the round is caught inside the loop.
\<close>

definition pop3_round :: "world \<Rightarrow> EmailService \<Rightarrow> pop3_entry \<Rightarrow> js_error + EmailMessage" where
  "pop3_round w st emailInfo =
     (case retrievePOP3Email w st (msgNumber emailInfo) of
        Inl err \<Rightarrow> Inl err
      | Inr emailContent \<Rightarrow>
          (case w_simpleParser w emailContent of
             Inl err \<Rightarrow> Inl err
           | Inr parsed \<Rightarrow>
               Inr (parseEmailMessage (w_uuid w (msgNumber emailInfo)) (w_now w) parsed
                      (msgNumber emailInfo))))"

text \<open>
  The loop keeps the messages pushed so far and the message numbers it has logged
  as failed (\<open>logger.error\<close>).
\<close>

fun pop3_loop ::
    "world \<Rightarrow> EmailService \<Rightarrow> pop3_entry list \<Rightarrow> EmailMessage list \<times> nat list
       \<Rightarrow> EmailMessage list \<times> nat list" where
  "pop3_loop w st [] acc = acc"
| "pop3_loop w st (emailInfo # rest) (es, logged) =
     (case pop3_round w st emailInfo of
        Inr emailMessage \<Rightarrow> pop3_loop w st rest (es @ [emailMessage], logged)
      | Inl err \<Rightarrow> pop3_loop w st rest (es, logged @ [msgNumber emailInfo]))"

definition fetchPOP3EmailDetails ::
    "world \<Rightarrow> EmailService \<Rightarrow> pop3_entry list \<Rightarrow> EmailMessage list \<times> nat list" where
  "fetchPOP3EmailDetails w st emailList =
     (case pop3_loop w st emailList ([], []) of
        (es, logged) \<Rightarrow> (sort_newest_first es, logged))"

text \<open>The client-side filters of \<open>fetchEmailsPOP3\<close>: time, sender, recipient.\<close>

definition pop3_time_filter :: "world \<Rightarrow> EmailQueryParams \<Rightarrow> EmailMessage list \<Rightarrow> EmailMessage list" where
  "pop3_time_filter w q es =
     (if truthy (since q)
      then (case w_moment w (the (since q)) of
              None \<Rightarrow> es
            | Some sinceTime \<Rightarrow> filter (\<lambda>e. isSameOrAfter (date e) (Some sinceTime)) es)
      else filter (\<lambda>e. isSameOrAfter (date e) (Some (w_dayStart w (w_now w)))) es)"

definition from_filter :: "EmailQueryParams \<Rightarrow> EmailMessage list \<Rightarrow> EmailMessage list" where
  "from_filter q es =
     (if truthy (q_from q)
      then filter (\<lambda>e. js_includes (toLowerCase (from_addr e)) (toLowerCase (the (q_from q)))) es
      else es)"

definition to_filter :: "EmailQueryParams \<Rightarrow> EmailMessage list \<Rightarrow> EmailMessage list" where
  "to_filter q es =
     (if truthy (q_to q)
      then filter (\<lambda>e. js_includes (toLowerCase (to_addr e)) (toLowerCase (the (q_to q)))) es
      else es)"

definition err_list_failed :: "jsstring \<Rightarrow> js_error" where
  "err_list_failed dataStr =
     Error ([33719, 21462, 37038, 20214, 21015, 34920, 22833, 36133, 58, 32] @ dataStr)"

definition fetchEmailsPOP3 ::
    "world \<Rightarrow> EmailQueryParams \<Rightarrow> jsstring \<Rightarrow> EmailService \<Rightarrow> (js_error + EmailFetchResult) \<times> EmailService" where
  "fetchEmailsPOP3 w q cacheKey st =
     (case connectPOP3 w st of
        (Some err, st1) \<Rightarrow> (Inl err, st1)
      | (None, st1) \<Rightarrow>
     (if \<not> pop3 st1 then (Inl err_pop3_not_connected, st1)
      else
     (case w_pop3_list w of
        Inl err \<Rightarrow> (Inl err, disconnect st1)
      | Inr ev \<Rightarrow>
     (if \<not> resp ev then (Inl (err_list_failed (list_data ev)), disconnect st1)
      else
     (let emailList = emailList_of ev in
      if length emailList = 0
      then (let st2 = disconnect st1;
                result = \<lparr> success = True, emails = [], total = 0, message = msg_none_found \<rparr>
            in (Inr result, cache_result w st2 cacheKey result (2 * 60 * 1000)))
      else
     (let lim = limit_or_10 q;
          limitedList = rev (drop (length emailList - lim) emailList);
          fetched = fst (fetchPOP3EmailDetails w st1 limitedList);
          filteredEmails = to_filter q (from_filter q (pop3_time_filter w q fetched));
          st2 = disconnect st1
      in case save_if_enabled w of
           Some err \<Rightarrow> (Inl err, disconnect st2)
         | None \<Rightarrow>
             (let result = \<lparr> success = True, emails = filteredEmails,
                              total = length filteredEmails,
                              message = msg_fetched (length filteredEmails) \<rparr>
              in (Inr result, cache_result w st2 cacheKey result (3 * 60 * 1000)))))))))"

subsection \<open>fetchEmails\<close>

definition fetchEmails :: "world \<Rightarrow> EmailQueryParams \<Rightarrow> EmailService \<Rightarrow> EmailFetchResult \<times> EmailService" where
  "fetchEmails w q st =
     (let proto = (case protocol q of None \<Rightarrow> IMAP | Some p \<Rightarrow> p);
          cacheKey = fetch_cacheKey q
      in case (if proto = POP3 then fetchEmailsPOP3 w q cacheKey st
               else fetchEmailsIMAP w q cacheKey st) of
           (Inr result, st1) \<Rightarrow> (result, st1)
         | (Inl err, st1) \<Rightarrow>
             (\<lparr> success = False, emails = [], total = 0, message = msg_fetch_failed err \<rparr>,
              disconnect st1))"

section \<open>Request validation and the fetch endpoint\<close>

text \<open>
  \<open>validateEmailQuery\<close> (validation.ts, \<open>emailQuerySchema\<close>). The format checks of the
  validation library for an address and a host name are arguments; the other rules
  are those of the schema: a string must not be empty, the port lies between 1 and
  65535, the limit between 1 and 100, \<open>since\<close> matches
  \<open>/^\d{4}\/\d{2}\/\d{2} \d{2}:\d{2}$/\<close>. All rules are checked (\<open>abortEarly: false\<close>);
  the error is the list of the rules that failed, in place of their messages. A
  request that passes gets the defaults of the schema for folder, protocol and limit.
\<close>

record joi_formats =
  is_email :: "jsstring \<Rightarrow> bool"
  is_hostname :: "jsstring \<Rightarrow> bool"

datatype rule =
    EmailFormat | PasswordEmpty | HostnameFormat | PortRange | MailboxEmpty
  | LimitMin | LimitMax | FromEmpty | SincePattern | ToEmpty

definition since_format :: rx where
  "since_format = cats [
     Unit is_digit, Unit is_digit, Unit is_digit, Unit is_digit, Unit (\<lambda>c. c = 47),
     Unit is_digit, Unit is_digit, Unit (\<lambda>c. c = 47),
     Unit is_digit, Unit is_digit, Unit (\<lambda>c. c = 32),
     Unit is_digit, Unit is_digit, Unit (\<lambda>c. c = 58),
     Unit is_digit, Unit is_digit]"

definition failed_rules :: "joi_formats \<Rightarrow> EmailQueryParams \<Rightarrow> rule list" where
  "failed_rules joi q =
     (if is_email joi (email_address q) then [] else [EmailFormat]) @
     (if password q = [] then [PasswordEmpty] else []) @
     (if is_hostname joi (imap_server q) then [] else [HostnameFormat]) @
     (if 1 \<le> port q \<and> port q \<le> 65535 then [] else [PortRange]) @
     (if mail_box q = Some [] then [MailboxEmpty] else []) @
     (case limit q of
        None \<Rightarrow> []
      | Some n \<Rightarrow> if n < 1 then [LimitMin] else if n > 100 then [LimitMax] else []) @
     (if q_from q = Some [] then [FromEmpty] else []) @
     (case since q of
        None \<Rightarrow> []
      | Some s \<Rightarrow> if rx_matches since_format s then [] else [SincePattern]) @
     (if q_to q = Some [] then [ToEmpty] else [])"

definition validateEmailQuery :: "joi_formats \<Rightarrow> EmailQueryParams \<Rightarrow> rule list + EmailQueryParams" where
  "validateEmailQuery joi q =
     (if failed_rules joi q \<noteq> [] then Inl (failed_rules joi q)
      else Inr (q\<lparr> mail_box := Some (case mail_box q of None \<Rightarrow> js ''INBOX'' | Some b \<Rightarrow> b),
                   protocol := Some (case protocol q of None \<Rightarrow> IMAP | Some p \<Rightarrow> p),
                   limit := Some (case limit q of None \<Rightarrow> 10 | Some n \<Rightarrow> n) \<rparr>))"

text \<open>
  \<open>EmailController.fetchEmails\<close>: a request that fails the validation is answered
  with status 400 and no data, before the service is called; otherwise the result of
  the service is the data of the response. The message of the response is left out.
\<close>

record FetchResponse =
  http_status :: nat
  resp_success :: bool
  resp_data :: "EmailFetchResult option"

definition controller_fetchEmails ::
    "joi_formats \<Rightarrow> world \<Rightarrow> EmailQueryParams \<Rightarrow> EmailService \<Rightarrow> FetchResponse \<times> EmailService" where
  "controller_fetchEmails joi w reqBody st =
     (case validateEmailQuery joi reqBody of
        Inl err \<Rightarrow> (\<lparr> http_status = 400, resp_success = False, resp_data = None \<rparr>, st)
      | Inr v \<Rightarrow>
          (case fetchEmails w v st of
             (result, st1) \<Rightarrow>
               (\<lparr> http_status = (if success result then 200 else 400),
                  resp_success = success result, resp_data = Some result \<rparr>, st1)))"

section \<open>Sample inputs\<close>

text \<open>
  A message from a finance address with a PDF attached, no body text and a subject
  without an invoice word.
\<close>

definition statement_email :: EmailMessage where
  "statement_email = \<lparr>
     email_id = js ''m-1'', messageId = js ''seq-1'',
     from_addr = js ''finance@corp.com'', to_addr = js ''me@corp.com'',
     subject = js ''Monthly statement'', title = js ''Monthly statement'',
     body = [], content_text = [], text_opt = None, date = 1749420180000,
     hasAttachments = True,
     attachments = Some [\<lparr> filename = js ''statement.pdf'', contentType = js ''application/pdf'',
                            size = 2048, content = None \<rparr>],
     isInvoice_flag = None, createdAt = 1749420180000 \<rparr>"

text \<open>
  The two messages of the detection tests of the repository (services.test.ts): the
  invoice notification with \<open>invoice.pdf\<close> attached, and a regular message.
\<close>

definition mockEmail :: EmailMessage where
  "mockEmail = \<lparr>
     email_id = js ''1'', messageId = js ''msg-1'',
     from_addr = js ''finance@company.com'', to_addr = js ''test@qq.com'',
     subject = [21457, 31080, 36890, 30693] @ js '' - Invoice Notification'',
     title = [],
     body = [23562, 25964, 30340, 23458, 25143, 65292, 24744, 30340, 21457, 31080, 24050, 29983,
             25104, 65292, 37329, 39069, 65306] @ js ''1000.00'' @ [20803],
     content_text = [], text_opt = None, date = 1704067200000, hasAttachments = True,
     attachments = Some [\<lparr> filename = js ''invoice.pdf'', contentType = js ''application/pdf'',
                            size = 1024, content = None \<rparr>],
     isInvoice_flag = None, createdAt = 1704067200000 \<rparr>"

definition nonInvoiceEmail :: EmailMessage where
  "nonInvoiceEmail = \<lparr>
     email_id = js ''2'', messageId = js ''msg-2'',
     from_addr = js ''friend@example.com'', to_addr = js ''test@qq.com'',
     subject = js ''Regular Email'', title = [],
     body = js ''Hello, how are you?'',
     content_text = [], text_opt = None, date = 1704067200000, hasAttachments = False,
     attachments = Some [], isInvoice_flag = None, createdAt = 1704067200000 \<rparr>"

text \<open>Environments of a detection: storage switched off; storage on and the write failing.\<close>

definition env_at :: "int \<Rightarrow> detect_env" where
  "env_at t = \<lparr> now = t, enableLocalStorage = False, writeJsonFile = None \<rparr>"

definition env_write_ok_at :: "int \<Rightarrow> detect_env" where
  "env_write_ok_at t = \<lparr> now = t, enableLocalStorage = True, writeJsonFile = None \<rparr>"

definition env_write_fails_at :: "int \<Rightarrow> detect_env" where
  "env_write_fails_at t =
     \<lparr> now = t, enableLocalStorage = True, writeJsonFile = Some (Error (js ''ENOSPC'')) \<rparr>"

text \<open>
  Three detections of the same message by the same service, with the storage on:
  at time 0 the write of the invoice file fails; one minute and six minutes later
  the storage works.
\<close>

definition run_failed_write :: "DetectionResult \<times> DetectionResult CacheService" where
  "run_failed_write =
     detectSingleInvoice InvoiceService_new (env_write_fails_at 0) CacheService_new statement_email"

definition run_after_1min :: "DetectionResult \<times> DetectionResult CacheService" where
  "run_after_1min =
     detectSingleInvoice InvoiceService_new (env_write_ok_at 60000) (snd run_failed_write)
       statement_email"

definition run_after_6min :: "DetectionResult \<times> DetectionResult CacheService" where
  "run_after_6min =
     detectSingleInvoice InvoiceService_new (env_write_ok_at 360000) (snd run_after_1min)
       statement_email"

text \<open>
  A fetch request; a second one that differs in the recipient filter only; a third one
  that asks for one message only; and a fresh service.
\<close>

definition inbox_query :: EmailQueryParams where
  "inbox_query = \<lparr>
     email_address = js ''me@corp.com'', password = js ''secret'', imap_server = js ''mail.corp.com'',
     port = 993, use_ssl = True, mail_box = Some (js ''INBOX''), protocol = Some POP3,
     limit = Some 5, q_from = None, since = Some (js ''2025/06/08 22:03''),
     q_to = Some (js ''me@corp.com'') \<rparr>"

definition other_recipient_query :: EmailQueryParams where
  "other_recipient_query = inbox_query\<lparr> q_to := Some (js ''boss@corp.com'') \<rparr>"

definition latest_only_query :: EmailQueryParams where
  "latest_only_query = inbox_query\<lparr> limit := Some 1 \<rparr>"

definition EmailService_new :: EmailService where
  "EmailService_new = \<lparr> imap = False, pop3 = False, currentProtocol = IMAP,
     connectionStatus = DISCONNECTED, cacheService = CacheService_new \<rparr>"

text \<open>
  A server with four messages, numbered 1 to 4, whose second message cannot be
  retrieved. The parser reads the number of a message from its text and dates the
  messages a minute apart: message 3 at 2025/06/08 22:03 exactly, message 1 two
  minutes before, message 4 one minute after. The date library knows the one bound
  of the sample request. A second world differs in that the server refuses the
  connection.
\<close>

definition sample_parser :: "jsstring \<Rightarrow> js_error + ParsedMail" where
  "sample_parser raw =
     Inr \<lparr> p_attachments = None, p_subject = Some raw, p_text = None, p_html = None,
           p_from = NoAddress, p_to = AddressOther (js ''me@corp.com''),
           p_date = Some (1749420180000 + (int (parseInt raw) - 3) * 60000),
           p_messageId = None \<rparr>"

definition sample_world :: world where
  "sample_world = \<lparr>
     w_now = 1749430000000,
     w_moment = (\<lambda>s. if s = js ''2025/06/08 22:03'' then Some 1749420180000 else None),
     w_dayStart = (\<lambda>t. t - t mod 86400000),
     w_uuid = (\<lambda>n. js ''id-'' @ digits n),
     w_simpleParser = sample_parser,
     w_enableLocalStorage = False,
     w_saveEmails = None,
     w_imap_connect = None,
     w_openBox = (\<lambda>box. None),
     w_search = (\<lambda>criteria. Inr [1, 2, 3, 4]),
     w_mailbox = (\<lambda>uid. if uid \<in> {1, 2, 3, 4} then Some (uid, digits uid) else None),
     w_imap_fetch_error = None,
     w_pop3_connect = None,
     w_pop3_list = Inr \<lparr> resp = True,
                          returnValue = ListObject [(1, 100), (2, 200), (3, 300), (4, 400)],
                          list_data = [] \<rparr>,
     w_pop3_retr = (\<lambda>n. if n = 2 then Inl (js ''-ERR'') else Inr (digits n)) \<rparr>"

text \<open>Message \<open>n\<close> of the sample server, normalized.\<close>

definition sample_message :: "nat \<Rightarrow> EmailMessage" where
  "sample_message n =
     parseEmailMessage (js ''id-'' @ digits n) 1749430000000
       \<lparr> p_attachments = None, p_subject = Some (digits n), p_text = None, p_html = None,
         p_from = NoAddress, p_to = AddressOther (js ''me@corp.com''),
         p_date = Some (1749420180000 + (int n - 3) * 60000), p_messageId = None \<rparr> n"


definition connected_pop3 :: EmailService where
  "connected_pop3 = EmailService_new\<lparr> pop3 := True, currentProtocol := POP3,
                                       connectionStatus := AUTHENTICATED \<rparr>"

text \<open>The list of the sample server as the loop receives it, latest first.\<close>

definition sample_entries :: "pop3_entry list" where
  "sample_entries = [\<lparr> msgNumber = 4, entry_size = 400 \<rparr>, \<lparr> msgNumber = 3, entry_size = 300 \<rparr>,
                     \<lparr> msgNumber = 2, entry_size = 200 \<rparr>, \<lparr> msgNumber = 1, entry_size = 100 \<rparr>]"

text \<open>Format checks that accept a string with an at sign, or with a dot.\<close>

definition sample_joi :: joi_formats where
  "sample_joi = \<lparr> is_email = (\<lambda>s. 64 \<in> set s), is_hostname = (\<lambda>s. 46 \<in> set s) \<rparr>"

text \<open>What a mail with one attachment of the given size looks like after the parser.\<close>

definition mail_with_attachment_of :: "nat \<Rightarrow> ParsedMail" where
  "mail_with_attachment_of n = \<lparr>
     p_attachments = Some [\<lparr> pa_filename = Some (js ''scan.pdf''),
                              pa_contentType = js ''application/pdf'', pa_size = n,
                              pa_content = [] \<rparr>],
     p_subject = Some (js ''Scan''), p_text = None, p_html = None, p_from = NoAddress,
     p_to = NoAddress, p_date = None, p_messageId = None \<rparr>"

section \<open>Properties of the scoring engine\<close>

lemma add_each_nonneg: "0 \<le> inc \<Longrightarrow> 0 \<le> score \<Longrightarrow> 0 \<le> add_each hit inc ks score"
  by (induction ks arbitrary: score) auto

lemma add_first_nonneg: "0 \<le> inc \<Longrightarrow> 0 \<le> score \<Longrightarrow> 0 \<le> add_first hit inc ks score"
  by (induction ks) auto

lemma analyzeSubject_range: "0 \<le> analyzeSubject s subj \<and> analyzeSubject s subj \<le> 1"
  by (simp add: analyzeSubject_def Let_def add_each_nonneg add_first_nonneg)

lemma analyzeSender_range: "0 \<le> analyzeSender s sender \<and> analyzeSender s sender \<le> 1"
  by (simp add: analyzeSender_def Let_def add_each_nonneg add_first_nonneg)

lemma analyzeContent_range: "0 \<le> analyzeContent s cont \<and> analyzeContent s cont \<le> 1"
  by (simp add: analyzeContent_def Let_def add_first_nonneg)

lemma attachment_step_nonneg: "0 \<le> score \<Longrightarrow> 0 \<le> attachment_step a score"
  by (simp add: attachment_step_def Let_def add_first_nonneg)

lemma attachments_loop_nonneg: "0 \<le> score \<Longrightarrow> 0 \<le> attachments_loop as score"
  by (induction as arbitrary: score) (simp_all add: attachment_step_nonneg)

lemma analyzeAttachments_range: "0 \<le> analyzeAttachments e \<and> analyzeAttachments e \<le> 1"
  by (simp add: analyzeAttachments_def attachments_loop_nonneg split: option.split)

lemma weighted_le: "0 \<le> x \<Longrightarrow> x \<le> 1 \<Longrightarrow> 0 \<le> w \<Longrightarrow> 0 \<le> x * w \<and> x * w \<le> (w::real)"
  by (simp add: mult_left_le_one_le)

text \<open>
  C1. Each of the four analyzers returns a value between 0 and 1, and for weights that
  are non-negative and sum to 1 the weighted sum (the confidence) lies between 0 and 1,
  for every message and every keyword configuration.
\<close>

theorem confidence_in_unit_interval:
  assumes "0 \<le> w_subject (scoreWeights s)" and "0 \<le> w_sender (scoreWeights s)"
    and "0 \<le> w_content (scoreWeights s)" and "0 \<le> w_attachment (scoreWeights s)"
    and "w_subject (scoreWeights s) + w_sender (scoreWeights s)
         + w_content (scoreWeights s) + w_attachment (scoreWeights s) = 1"
  shows "(0 \<le> analyzeSubject s (subject e) \<and> analyzeSubject s (subject e) \<le> 1)
       \<and> (0 \<le> analyzeSender s (from_addr e) \<and> analyzeSender s (from_addr e) \<le> 1)
       \<and> (0 \<le> analyzeContent s (body e) \<and> analyzeContent s (body e) \<le> 1)
       \<and> (0 \<le> analyzeAttachments e \<and> analyzeAttachments e \<le> 1)
       \<and> 0 \<le> combined_score s e \<and> combined_score s e \<le> 1"
proof -
  have a: "0 \<le> analyzeSubject s (subject e) * w_subject (scoreWeights s)
      \<and> analyzeSubject s (subject e) * w_subject (scoreWeights s) \<le> w_subject (scoreWeights s)"
    using analyzeSubject_range assms(1) by (intro weighted_le) auto
  have b: "0 \<le> analyzeSender s (from_addr e) * w_sender (scoreWeights s)
      \<and> analyzeSender s (from_addr e) * w_sender (scoreWeights s) \<le> w_sender (scoreWeights s)"
    using analyzeSender_range assms(2) by (intro weighted_le) auto
  have c: "0 \<le> analyzeContent s (body e) * w_content (scoreWeights s)
      \<and> analyzeContent s (body e) * w_content (scoreWeights s) \<le> w_content (scoreWeights s)"
    using analyzeContent_range assms(3) by (intro weighted_le) auto
  have d: "0 \<le> analyzeAttachments e * w_attachment (scoreWeights s)
      \<and> analyzeAttachments e * w_attachment (scoreWeights s) \<le> w_attachment (scoreWeights s)"
    using analyzeAttachments_range assms(4) by (intro weighted_le) auto
  have lo: "0 \<le> combined_score s e"
    unfolding combined_score_def using a b c d by linarith
  have hi: "combined_score s e \<le> 1"
    unfolding combined_score_def using a b c d assms(5) by linarith
  show ?thesis
    using lo hi analyzeSubject_range analyzeSender_range analyzeContent_range
      analyzeAttachments_range by blast
qed

text \<open>The sample message scores 0 for subject and content, 1 for the sender, 0.8 for the PDF.\<close>

lemmas string_eval = js_def toLowerCase_def lower_unit_def js_includes_def js_endsWith_def
  sublist_code(3) suffix_to_prefix

lemma statement_sender: "analyzeSender InvoiceService_new (js ''finance@corp.com'') = 1"
  unfolding analyzeSender_def Let_def InvoiceService_new_def getDefaultKeywords_def invoiceDomains_def
  by (simp add: string_eval)

lemma statement_subject: "analyzeSubject InvoiceService_new (js ''Monthly statement'') = 0"
  unfolding analyzeSubject_def Let_def InvoiceService_new_def getDefaultKeywords_def
    commonInvoiceKeywords_def
  by (simp add: string_eval)

lemma empty_content: "analyzeContent s [] = 0"
  by (simp add: analyzeContent_def)

lemma statement_pdf_step:
  "attachment_step \<lparr> filename = js ''statement.pdf'', contentType = js ''application/pdf'',
                      size = 2048, content = None \<rparr> 0 = 0.8"
  unfolding attachment_step_def Let_def invoiceFilenames_def
  by (simp add: string_eval)

lemma statement_attachments: "analyzeAttachments statement_email = 0.8"
  unfolding analyzeAttachments_def statement_email_def
  by (simp add: statement_pdf_step)

lemma statement_fields:
  "subject statement_email = js ''Monthly statement''"
  "from_addr statement_email = js ''finance@corp.com''"
  "body statement_email = []"
  by (simp_all add: statement_email_def)

lemma service_fields:
  "scoreWeights InvoiceService_new = default_scoreWeights"
  "confidenceThreshold InvoiceService_new = 0.3"
  by (simp_all add: InvoiceService_new_def default_confidenceThreshold_def)

lemma statement_score: "combined_score InvoiceService_new statement_email = 0.36"
  unfolding combined_score_def statement_fields statement_sender statement_subject empty_content
    statement_attachments service_fields
  by (simp add: default_scoreWeights_def)

theorem confidence_in_unit_interval_witness:
  "0 \<le> w_subject (scoreWeights InvoiceService_new)
   \<and> 0 \<le> w_sender (scoreWeights InvoiceService_new)
   \<and> 0 \<le> w_content (scoreWeights InvoiceService_new)
   \<and> 0 \<le> w_attachment (scoreWeights InvoiceService_new)
   \<and> w_subject (scoreWeights InvoiceService_new) + w_sender (scoreWeights InvoiceService_new)
       + w_content (scoreWeights InvoiceService_new)
       + w_attachment (scoreWeights InvoiceService_new) = 1
   \<and> 0 \<le> combined_score InvoiceService_new statement_email
   \<and> combined_score InvoiceService_new statement_email \<le> 1"
  using confidence_in_unit_interval [of InvoiceService_new statement_email]
  by (simp add: service_fields default_scoreWeights_def)

text \<open>
  C3. The weights the constructor assigns sum to 1, and the subject weight (0.5) is
  strictly the highest. The attachment weight does not lie above the sender weight:
  both are 0.2; the content weight is 0.1, half of the sender weight.
\<close>

theorem default_weights_profile:
  "scoreWeights InvoiceService_new = default_scoreWeights
   \<and> w_subject default_scoreWeights + w_sender default_scoreWeights
       + w_content default_scoreWeights + w_attachment default_scoreWeights = 1
   \<and> w_attachment default_scoreWeights < w_subject default_scoreWeights
   \<and> w_sender default_scoreWeights < w_subject default_scoreWeights
   \<and> w_content default_scoreWeights < w_subject default_scoreWeights
   \<and> w_attachment default_scoreWeights = w_sender default_scoreWeights
   \<and> w_content default_scoreWeights < w_sender default_scoreWeights
   \<and> w_subject default_scoreWeights = 0.5 \<and> w_sender default_scoreWeights = 0.2
   \<and> w_content default_scoreWeights = 0.1 \<and> w_attachment default_scoreWeights = 0.2"
  by (simp add: service_fields default_scoreWeights_def)

text \<open>The sender weight does not lie below the attachment weight: the two are equal.\<close>

theorem attachment_weight_equals_sender_weight:
  "\<not> w_sender default_scoreWeights < w_attachment default_scoreWeights"
  by (simp add: default_scoreWeights_def)

section \<open>Properties of the detection\<close>

lemma cache_get_entry:
  "cache cs key = Some (d, x) \<Longrightarrow>
   cache_get cs t key = (if t > x then (None, cs\<lparr> cache := (cache cs)(key := None) \<rparr>) else (Some d, cs))"
  by (simp add: cache_get_def)

lemma cache_get_absent: "cache cs key = None \<Longrightarrow> cache_get cs t key = (None, cs)"
  by (simp add: cache_get_def)

lemma cache_set_lookup:
  "ttl \<noteq> 0 \<Longrightarrow> cache (cache_set cs t key d (Some ttl)) key = Some (d, t + ttl)"
  by (simp add: cache_set_def)

lemma detect_cached:
  assumes "fst (cache_get cs (now env) (getInvoiceDetectionKey (email_id e))) = Some r"
  shows "detectSingleInvoice s env cs e = (r, cs)"
proof -
  have "cache_get cs (now env) (getInvoiceDetectionKey (email_id e)) = (Some r, cs)"
    using assms by (auto simp: cache_get_def split: option.splits if_splits)
  then show ?thesis
    by (simp add: detectSingleInvoice_def)
qed

lemma detect_fresh:
  assumes "fst (cache_get cs (now env) (getInvoiceDetectionKey (email_id e))) = None"
    and "saveInvoiceInfo env = Inr ()"
  shows "confidence (fst (detectSingleInvoice s env cs e)) = combined_score s e"
    and "isInvoice (fst (detectSingleInvoice s env cs e)) = (confidenceThreshold s \<le> combined_score s e)"
    and "cache (snd (detectSingleInvoice s env cs e)) (getInvoiceDetectionKey (email_id e))
         = Some (fst (detectSingleInvoice s env cs e), now env + 30 * 60 * 1000)"
proof -
  obtain cs1 where g: "cache_get cs (now env) (getInvoiceDetectionKey (email_id e)) = (None, cs1)"
    using assms(1) by (cases "cache_get cs (now env) (getInvoiceDetectionKey (email_id e))") auto
  show "confidence (fst (detectSingleInvoice s env cs e)) = combined_score s e"
    unfolding detectSingleInvoice_def combined_score_def Let_def g using assms(2) by simp
  show "isInvoice (fst (detectSingleInvoice s env cs e)) = (confidenceThreshold s \<le> combined_score s e)"
    unfolding detectSingleInvoice_def combined_score_def Let_def g using assms(2) by simp
  show "cache (snd (detectSingleInvoice s env cs e)) (getInvoiceDetectionKey (email_id e))
         = Some (fst (detectSingleInvoice s env cs e), now env + 30 * 60 * 1000)"
    unfolding detectSingleInvoice_def combined_score_def Let_def g using assms(2)
    by (simp add: cache_set_def)
qed

lemma detect_failed_write:
  assumes "fst (cache_get cs (now env) (getInvoiceDetectionKey (email_id e))) = None"
    and "saveInvoiceInfo env = Inl err" and "confidenceThreshold s \<le> combined_score s e"
  shows "confidence (fst (detectSingleInvoice s env cs e)) = 0"
    and "\<not> isInvoice (fst (detectSingleInvoice s env cs e))"
    and "cache (snd (detectSingleInvoice s env cs e)) (getInvoiceDetectionKey (email_id e))
         = Some (fst (detectSingleInvoice s env cs e), now env + 5 * 60 * 1000)"
proof -
  obtain cs1 where g: "cache_get cs (now env) (getInvoiceDetectionKey (email_id e)) = (None, cs1)"
    using assms(1) by (cases "cache_get cs (now env) (getInvoiceDetectionKey (email_id e))") auto
  show "confidence (fst (detectSingleInvoice s env cs e)) = 0"
    unfolding detectSingleInvoice_def Let_def g using assms(2,3) by (simp add: combined_score_def)
  show "\<not> isInvoice (fst (detectSingleInvoice s env cs e))"
    unfolding detectSingleInvoice_def Let_def g using assms(2,3) by (simp add: combined_score_def)
  show "cache (snd (detectSingleInvoice s env cs e)) (getInvoiceDetectionKey (email_id e))
         = Some (fst (detectSingleInvoice s env cs e), now env + 5 * 60 * 1000)"
    unfolding detectSingleInvoice_def Let_def g using assms(2,3)
    by (simp add: combined_score_def cache_set_def)
qed

lemma saveInvoiceInfo_env_at: "saveInvoiceInfo (env_at t) = Inr ()"
  by (simp add: saveInvoiceInfo_def env_at_def)

lemma saveInvoiceInfo_write_ok: "saveInvoiceInfo (env_write_ok_at t) = Inr ()"
  by (simp add: saveInvoiceInfo_def env_write_ok_at_def)

lemma saveInvoiceInfo_write_fails: "saveInvoiceInfo (env_write_fails_at t) = Inl (Error (js ''ENOSPC''))"
  by (simp add: saveInvoiceInfo_def env_write_fails_at_def)

lemma env_clock: "now (env_at t) = t" "now (env_write_ok_at t) = t" "now (env_write_fails_at t) = t"
  by (simp_all add: env_at_def env_write_ok_at_def env_write_fails_at_def)

lemma fresh_cache_miss: "fst (cache_get CacheService_new t key) = None"
  by (simp add: cache_get_def CacheService_new_def)

text \<open>
  C6. Detection of a message runs twice, by the same service (keywords, weights and
  threshold unchanged). When the first run finds no unexpired cache entry under the
  identifier of the message and saving the invoice record fails in neither run, both
  runs give the same confidence and the same classification: the weighted sum of the
  four scores and its comparison with the threshold. The second run may come at any
  time, before or after the cached result expires.
\<close>

theorem repeated_detection_agrees:
  assumes "fst (cache_get cs (now env1) (getInvoiceDetectionKey (email_id e))) = None"
    and "saveInvoiceInfo env1 = Inr ()" and "saveInvoiceInfo env2 = Inr ()"
  shows "confidence (fst (detectSingleInvoice s env2 (snd (detectSingleInvoice s env1 cs e)) e))
           = confidence (fst (detectSingleInvoice s env1 cs e))
       \<and> isInvoice (fst (detectSingleInvoice s env2 (snd (detectSingleInvoice s env1 cs e)) e))
           = isInvoice (fst (detectSingleInvoice s env1 cs e))
       \<and> confidence (fst (detectSingleInvoice s env1 cs e)) = combined_score s e
       \<and> isInvoice (fst (detectSingleInvoice s env1 cs e))
           = (confidenceThreshold s \<le> combined_score s e)"
proof -
  let ?key = "getInvoiceDetectionKey (email_id e)"
  let ?D1 = "detectSingleInvoice s env1 cs e"
  let ?D2 = "detectSingleInvoice s env2 (snd ?D1) e"
  note first = detect_fresh[OF assms(1,2), of s]
  have second: "fst ?D2 = fst ?D1 \<or> (confidence (fst ?D2) = combined_score s e
      \<and> isInvoice (fst ?D2) = (confidenceThreshold s \<le> combined_score s e))"
  proof (cases "fst (cache_get (snd ?D1) (now env2) ?key)")
    case None
    from detect_fresh(1,2)[OF None assms(3), of s] show ?thesis by simp
  next
    case (Some r)
    then have "r = fst ?D1"
      using first(3) by (auto simp: cache_get_def split: if_splits)
    with detect_cached[OF Some, of s] show ?thesis by simp
  qed
  then show ?thesis using first(1,2) by auto
qed


theorem repeated_detection_agrees_witness:
  "fst (cache_get CacheService_new (now (env_at 0)) (getInvoiceDetectionKey (email_id statement_email))) = None
   \<and> saveInvoiceInfo (env_at 0) = Inr () \<and> saveInvoiceInfo (env_at 60000) = Inr ()
   \<and> confidence (fst (detectSingleInvoice InvoiceService_new (env_at 60000)
         (snd (detectSingleInvoice InvoiceService_new (env_at 0) CacheService_new statement_email))
         statement_email))
       = confidence (fst (detectSingleInvoice InvoiceService_new (env_at 0) CacheService_new
           statement_email))
   \<and> isInvoice (fst (detectSingleInvoice InvoiceService_new (env_at 60000)
         (snd (detectSingleInvoice InvoiceService_new (env_at 0) CacheService_new statement_email))
         statement_email))
       = isInvoice (fst (detectSingleInvoice InvoiceService_new (env_at 0) CacheService_new
           statement_email))"
  using repeated_detection_agrees [of CacheService_new "env_at 0" statement_email "env_at 60000"
      InvoiceService_new]
  by (simp add: fresh_cache_miss saveInvoiceInfo_env_at)

text \<open>
  Without that proviso the two runs can differ. A run whose write fails caches a result
  of confidence 0 for five minutes; a run one minute later returns it, a run six
  minutes later scores the message afresh.
\<close>

lemma run_failed_write_facts:
  "confidence (fst run_failed_write) = 0"
  "cache (snd run_failed_write) (getInvoiceDetectionKey (email_id statement_email))
     = Some (fst run_failed_write, 300000)"
  unfolding run_failed_write_def
  using detect_failed_write(1,3) [where s = InvoiceService_new and e = statement_email
          and env = "env_write_fails_at 0" and cs = CacheService_new,
          OF fresh_cache_miss saveInvoiceInfo_write_fails]
  by (simp_all add: statement_score service_fields env_clock)

lemma run_after_1min_facts:
  "run_after_1min = (fst run_failed_write, snd run_failed_write)"
  unfolding run_after_1min_def
  by (rule detect_cached) (simp add: cache_get_def run_failed_write_facts env_clock)

lemma run_after_6min_facts:
  "confidence (fst run_after_6min) = 0.36"
proof -
  have "fst (cache_get (snd run_after_1min) (now (env_write_ok_at 360000))
          (getInvoiceDetectionKey (email_id statement_email))) = None"
    by (simp add: cache_get_def run_after_1min_facts run_failed_write_facts env_clock)
  from detect_fresh(1) [OF this saveInvoiceInfo_write_ok, of InvoiceService_new]
  show ?thesis
    by (simp add: run_after_6min_def statement_score)
qed

theorem cached_failure_changes_result:
  "confidence (fst run_after_1min) \<noteq> confidence (fst run_after_6min)"
  by (simp add: run_after_1min_facts run_failed_write_facts run_after_6min_facts)

lemma analyzeEmail_score:
  "a_confidenceScore (analyzeEmail s cfg env e) = combined_score s e"
  "a_isInvoice (analyzeEmail s cfg env e) = (cfg_confidenceThreshold cfg \<le> combined_score s e)"
  by (simp_all add: analyzeEmail_def combined_score_def Let_def)

text \<open>
  C2. Both paths compare the confidence with a threshold, but not with the same one:
  \<open>detectSingleInvoice\<close> uses the 0.3 of the constructor, \<open>analyzeEmail\<close> and
  \<open>detectInvoices\<close> the threshold of the configuration, which is 0.5 by default.
  The sample message, of confidence 0.36, is an invoice for the first and not for
  the second.
\<close>

theorem batch_path_threshold_differs:
  "confidence (fst (detectSingleInvoice InvoiceService_new (env_at 0) CacheService_new
       statement_email)) = 0.36
   \<and> isInvoice (fst (detectSingleInvoice InvoiceService_new (env_at 0) CacheService_new
       statement_email))
   \<and> a_confidenceScore (analyzeEmail InvoiceService_new config_invoice (env_at 0)
       statement_email) = 0.36
   \<and> \<not> a_isInvoice (analyzeEmail InvoiceService_new config_invoice (env_at 0) statement_email)
   \<and> invoices (detectInvoices InvoiceService_new config_invoice (env_at 0) [statement_email]) = []
   \<and> confidenceThreshold InvoiceService_new = 0.3
   \<and> cfg_confidenceThreshold config_invoice = 0.5"
  using detect_fresh(1,2) [where s = InvoiceService_new and e = statement_email
          and env = "env_at 0" and cs = CacheService_new,
          OF fresh_cache_miss saveInvoiceInfo_env_at]
  by (simp add: analyzeEmail_score detectInvoices_def statement_score service_fields
        config_invoice_def)

subsection \<open>The detection tests of the repository\<close>

text \<open>
  The two tests of \<open>detectSingleInvoice\<close> in services.test.ts expect the invoice
  notification to be detected with a confidence above 0.5 and the regular message not
  to be detected, with a confidence below 0.5. The model gives 0.94 and 0.
\<close>

lemmas rx_eval = rx_test_def lit.simps ci_def opt_def many1_def colon_opt_def spaces_def
  is_digit_def is_space_def is_alnum_ci_def lower_unit_def js_def

lemma mockEmail_subject: "analyzeSubject InvoiceService_new (subject mockEmail) = 1"
  unfolding analyzeSubject_def Let_def InvoiceService_new_def getDefaultKeywords_def
    commonInvoiceKeywords_def mockEmail_def
  by (simp add: string_eval)

lemma mockEmail_sender: "analyzeSender InvoiceService_new (from_addr mockEmail) = 1"
  unfolding analyzeSender_def Let_def InvoiceService_new_def getDefaultKeywords_def invoiceDomains_def
    mockEmail_def
  by (simp add: string_eval)

lemma mockEmail_patterns:
  "\<not> rx_test invoiceNumber_rx (body mockEmail)" "rx_test amount_rx (body mockEmail)"
  "\<not> rx_test taxNumber_rx (body mockEmail)" "\<not> rx_test date_rx (body mockEmail)"
  "\<not> rx_test company_rx (body mockEmail)"
  unfolding invoiceNumber_rx_def amount_rx_def taxNumber_rx_def date_rx_def company_rx_def
    mockEmail_def
  by (simp_all add: rx_eval)

lemma mockEmail_amount_words:
  "add_first (\<lambda>keyword. js_includes (body mockEmail) keyword
                \<or> js_includes (toLowerCase (body mockEmail)) (toLowerCase keyword)) 0.1
     [[37329, 39069], [24635, 35745], [21512, 35745], js ''amount'', js ''total'', js ''sum'']
     score = score + 0.1"
  unfolding mockEmail_def by (simp add: string_eval)

lemma mockEmail_content: "analyzeContent InvoiceService_new (body mockEmail) = 0.4"
proof -
  have p: "patterns InvoiceService_new
      = \<lparr> invoiceNumber = invoiceNumber_rx, amount = amount_rx, taxNumber = taxNumber_rx,
          date_pattern = date_rx, company = company_rx \<rparr>"
    by (simp add: InvoiceService_new_def)
  have k: "amounts (chinese (svc_keywords InvoiceService_new)) @ amounts (english (svc_keywords InvoiceService_new))
      = [[37329, 39069], [24635, 35745], [21512, 35745], js ''amount'', js ''total'', js ''sum'']"
    by (simp add: InvoiceService_new_def getDefaultKeywords_def)
  have b: "body mockEmail \<noteq> []" by (simp add: mockEmail_def)
  show ?thesis
    unfolding analyzeContent_def Let_def p k mockEmail_amount_words
    by (simp add: mockEmail_patterns b)
qed

lemma mockEmail_attachment_step:
  "attachment_step \<lparr> filename = js ''invoice.pdf'', contentType = js ''application/pdf'',
                      size = 1024, content = None \<rparr> 0 = 1.4"
  unfolding attachment_step_def Let_def invoiceFilenames_def
  by (simp add: string_eval)

lemma mockEmail_attachments: "analyzeAttachments mockEmail = 1"
  unfolding analyzeAttachments_def mockEmail_def
  by (simp add: mockEmail_attachment_step)

lemma mockEmail_score: "combined_score InvoiceService_new mockEmail = 0.94"
  unfolding combined_score_def mockEmail_subject mockEmail_sender mockEmail_content
    mockEmail_attachments service_fields
  by (simp add: default_scoreWeights_def)

lemma nonInvoiceEmail_patterns:
  "\<not> rx_test invoiceNumber_rx (body nonInvoiceEmail)" "\<not> rx_test amount_rx (body nonInvoiceEmail)"
  "\<not> rx_test taxNumber_rx (body nonInvoiceEmail)" "\<not> rx_test date_rx (body nonInvoiceEmail)"
  "\<not> rx_test company_rx (body nonInvoiceEmail)"
  unfolding invoiceNumber_rx_def amount_rx_def taxNumber_rx_def date_rx_def company_rx_def
    nonInvoiceEmail_def
  by (simp_all add: rx_eval)

lemma nonInvoiceEmail_amount_words:
  "add_first (\<lambda>keyword. js_includes (body nonInvoiceEmail) keyword
                \<or> js_includes (toLowerCase (body nonInvoiceEmail)) (toLowerCase keyword)) 0.1
     [[37329, 39069], [24635, 35745], [21512, 35745], js ''amount'', js ''total'', js ''sum'']
     score = score"
  unfolding nonInvoiceEmail_def by (simp add: string_eval)

lemma nonInvoiceEmail_content: "analyzeContent InvoiceService_new (body nonInvoiceEmail) = 0"
proof -
  have p: "patterns InvoiceService_new
      = \<lparr> invoiceNumber = invoiceNumber_rx, amount = amount_rx, taxNumber = taxNumber_rx,
          date_pattern = date_rx, company = company_rx \<rparr>"
    by (simp add: InvoiceService_new_def)
  have k: "amounts (chinese (svc_keywords InvoiceService_new)) @ amounts (english (svc_keywords InvoiceService_new))
      = [[37329, 39069], [24635, 35745], [21512, 35745], js ''amount'', js ''total'', js ''sum'']"
    by (simp add: InvoiceService_new_def getDefaultKeywords_def)
  show ?thesis
    unfolding analyzeContent_def Let_def p k nonInvoiceEmail_amount_words
    by (simp add: nonInvoiceEmail_patterns)
qed

lemma nonInvoiceEmail_score: "combined_score InvoiceService_new nonInvoiceEmail = 0"
proof -
  have s: "analyzeSubject InvoiceService_new (subject nonInvoiceEmail) = 0"
    unfolding analyzeSubject_def Let_def InvoiceService_new_def getDefaultKeywords_def
      commonInvoiceKeywords_def nonInvoiceEmail_def
    by (simp add: string_eval)
  have f: "analyzeSender InvoiceService_new (from_addr nonInvoiceEmail) = 0"
    unfolding analyzeSender_def Let_def InvoiceService_new_def getDefaultKeywords_def
      invoiceDomains_def nonInvoiceEmail_def
    by (simp add: string_eval)
  have a: "analyzeAttachments nonInvoiceEmail = 0"
    by (simp add: analyzeAttachments_def nonInvoiceEmail_def)
  show ?thesis
    unfolding combined_score_def s f a nonInvoiceEmail_content by simp
qed

lemma test_detects_invoice:
  "isInvoice (fst (detectSingleInvoice InvoiceService_new (env_at 0) CacheService_new mockEmail))
   \<and> confidence (fst (detectSingleInvoice InvoiceService_new (env_at 0) CacheService_new mockEmail))
       = 0.94"
  using detect_fresh(1,2) [where s = InvoiceService_new and e = mockEmail
          and env = "env_at 0" and cs = CacheService_new,
          OF fresh_cache_miss saveInvoiceInfo_env_at]
  by (simp add: mockEmail_score service_fields)

lemma test_rejects_regular_email:
  "\<not> isInvoice (fst (detectSingleInvoice InvoiceService_new (env_at 0) CacheService_new
         nonInvoiceEmail))
   \<and> confidence (fst (detectSingleInvoice InvoiceService_new (env_at 0) CacheService_new
         nonInvoiceEmail)) = 0"
  using detect_fresh(1,2) [where s = InvoiceService_new and e = nonInvoiceEmail
          and env = "env_at 0" and cs = CacheService_new,
          OF fresh_cache_miss saveInvoiceInfo_env_at]
  by (simp add: nonInvoiceEmail_score service_fields)

section \<open>Properties of the normalizer\<close>

lemma keep_attachments_filter:
  "keep_attachments pas acc
     = acc @ map pushed_attachment (filter (\<lambda>a. pa_size a \<le> attachmentSizeLimit) pas)"
  by (induction pas arbitrary: acc) simp_all

lemma parse_attachments:
  "attachments (parseEmailMessage uuid clock parsed seqno)
     = Some (map pushed_attachment
               (filter (\<lambda>a. pa_size a \<le> attachmentSizeLimit)
                  (case p_attachments parsed of None \<Rightarrow> [] | Some pas \<Rightarrow> pas)))"
  by (simp add: parseEmailMessage_def Let_def keep_attachments_filter split: option.split)

lemma parse_hasAttachments:
  "hasAttachments (parseEmailMessage uuid clock parsed seqno)
     = (the (attachments (parseEmailMessage uuid clock parsed seqno)) \<noteq> [])"
  by (simp add: parseEmailMessage_def Let_def)

text \<open>
  C9. The attachment list of a normalized message holds exactly the attachments whose
  size does not exceed the limit of 10 MB, in order, and \<open>hasAttachments\<close> says whether
  that list is non-empty. When every attachment of the mail exceeds the limit, the
  list is empty, \<open>hasAttachments\<close> is false and the attachment score is 0.
\<close>

theorem oversized_attachments_dropped:
  "attachments (parseEmailMessage uuid clock parsed seqno)
     = Some (map pushed_attachment
               (filter (\<lambda>a. pa_size a \<le> attachmentSizeLimit)
                  (case p_attachments parsed of None \<Rightarrow> [] | Some pas \<Rightarrow> pas)))
   \<and> hasAttachments (parseEmailMessage uuid clock parsed seqno)
       = (the (attachments (parseEmailMessage uuid clock parsed seqno)) \<noteq> [])
   \<and> (\<forall>a \<in> set (the (attachments (parseEmailMessage uuid clock parsed seqno))).
         size a \<le> attachmentSizeLimit)
   \<and> ((\<forall>pa \<in> set (case p_attachments parsed of None \<Rightarrow> [] | Some pas \<Rightarrow> pas).
           attachmentSizeLimit < pa_size pa)
        \<longrightarrow> \<not> hasAttachments (parseEmailMessage uuid clock parsed seqno)
          \<and> attachments (parseEmailMessage uuid clock parsed seqno) = Some []
          \<and> analyzeAttachments (parseEmailMessage uuid clock parsed seqno) = 0)
   \<and> attachmentSizeLimit = 10485760"
proof -
  let ?m = "parseEmailMessage uuid clock parsed seqno"
  let ?pas = "case p_attachments parsed of None \<Rightarrow> [] | Some pas \<Rightarrow> pas"
  have sizes: "\<forall>a \<in> set (the (attachments ?m)). size a \<le> attachmentSizeLimit"
    by (auto simp: parse_attachments pushed_attachment_def)
  have big: "\<not> hasAttachments ?m \<and> attachments ?m = Some [] \<and> analyzeAttachments ?m = 0"
    if "\<forall>pa \<in> set ?pas. attachmentSizeLimit < pa_size pa"
  proof -
    have "filter (\<lambda>a. pa_size a \<le> attachmentSizeLimit) ?pas = []"
      using that by (auto simp: filter_empty_conv)
    then have "attachments ?m = Some []"
      by (simp add: parse_attachments)
    then show ?thesis
      by (simp add: parse_hasAttachments analyzeAttachments_def)
  qed
  show ?thesis
    using parse_attachments parse_hasAttachments sizes big
    by (simp add: attachmentSizeLimit_def)
qed

theorem oversized_attachments_dropped_witness:
  "map pa_size (the (p_attachments (mail_with_attachment_of 10485761))) = [10485761]
   \<and> attachmentSizeLimit < 10485761
   \<and> \<not> hasAttachments (parseEmailMessage (js ''id-1'') 0 (mail_with_attachment_of 10485761) 1)
   \<and> attachments (parseEmailMessage (js ''id-1'') 0 (mail_with_attachment_of 10485761) 1) = Some []
   \<and> analyzeAttachments (parseEmailMessage (js ''id-1'') 0 (mail_with_attachment_of 10485761) 1) = 0"
  using oversized_attachments_dropped [of "js ''id-1''" 0 "mail_with_attachment_of 10485761" 1]
  by (simp add: mail_with_attachment_of_def attachmentSizeLimit_def)

section \<open>Properties of the cache keys\<close>

lemma fetch_key_without_recipient: "fetch_cacheKey (q\<lparr> q_to := t \<rparr>) = fetch_cacheKey q"
  by (simp add: fetch_cacheKey_def mail_box_or_INBOX_def limit_or_10_def)

text \<open>
  C7. The key of a fetch is built from address, folder, limit, sender filter and time
  bound; the recipient filter is no part of it. The two sample requests differ in the
  recipient filter, which decides whether the sample message is returned, and have
  the same key.
\<close>

theorem fetch_key_ignores_recipient:
  "fetch_cacheKey inbox_query = fetch_cacheKey other_recipient_query
   \<and> q_to inbox_query \<noteq> q_to other_recipient_query
   \<and> to_filter inbox_query [statement_email] = [statement_email]
   \<and> to_filter other_recipient_query [statement_email] = []"
  unfolding other_recipient_query_def fetch_key_without_recipient
  unfolding to_filter_def inbox_query_def statement_email_def truthy_def
  by (simp add: string_eval)

section \<open>Properties of the retrieval\<close>

text \<open>The sample server, evaluated.\<close>

lemma parseInt_digit: "n < 10 \<Longrightarrow> parseInt (digits n) = n"
  by (simp add: parseInt_def)

lemma sample_round:
  "n \<noteq> 2 \<Longrightarrow> n < 10 \<Longrightarrow> pop3 st \<Longrightarrow>
   pop3_round sample_world st \<lparr> msgNumber = n, entry_size = k \<rparr> = Inr (sample_message n)"
  unfolding sample_message_def
  by (simp add: pop3_round_def retrievePOP3Email_def sample_world_def sample_parser_def
        parseInt_digit del: digits.simps)

lemma sample_round_fails:
  "pop3 st \<Longrightarrow> pop3_round sample_world st \<lparr> msgNumber = 2, entry_size = k \<rparr>
     = Inl (Error ([33719, 21462, 37038, 20214, 20869, 23481, 22833, 36133, 58, 32] @ js ''-ERR''))"
  by (simp add: pop3_round_def retrievePOP3Email_def sample_world_def)

lemma sample_dates: "date (sample_message n) = 1749420180000 + (int n - 3) * 60000"
  by (simp add: sample_message_def parseEmailMessage_def Let_def)

lemma sample_to: "to_addr (sample_message n) = js ''me@corp.com''"
  by (simp add: sample_message_def parseEmailMessage_def Let_def)

lemma sample_details:
  "pop3 st \<Longrightarrow>
   fetchPOP3EmailDetails sample_world st sample_entries
     = ([sample_message 4, sample_message 3, sample_message 1], [2])"
  unfolding fetchPOP3EmailDetails_def sample_entries_def
  by (simp add: sample_round sample_round_fails sort_newest_first_def sample_dates
        del: One_nat_def)

lemma sample_server:
  "w_pop3_list sample_world
     = Inr \<lparr> resp = True, returnValue = ListObject [(1, 100), (2, 200), (3, 300), (4, 400)],
             list_data = [] \<rparr>"
  "w_pop3_connect sample_world = None" "save_if_enabled sample_world = None"
  "w_moment sample_world (js ''2025/06/08 22:03'') = Some 1749420180000"
  by (simp_all add: sample_world_def save_if_enabled_def)


lemma latest_query:
  "protocol latest_only_query = Some POP3" "limit_or_10 latest_only_query = 1"
  "since latest_only_query = Some (js ''2025/06/08 22:03'')" "q_from latest_only_query = None"
  "q_to latest_only_query = Some (js ''me@corp.com'')"
  by (simp_all add: latest_only_query_def inbox_query_def limit_or_10_def)



lemma latest_details:
  "pop3 st \<Longrightarrow>
   fetchPOP3EmailDetails sample_world st [\<lparr> msgNumber = 4, entry_size = 400 \<rparr>]
     = ([sample_message 4], [])"
  unfolding fetchPOP3EmailDetails_def
  by (simp add: sample_round sort_newest_first_def)

lemma latest_filters:
  "to_filter latest_only_query (from_filter latest_only_query
     (pop3_time_filter sample_world latest_only_query [sample_message 4]))
   = [sample_message 4]"
  unfolding to_filter_def from_filter_def pop3_time_filter_def latest_query truthy_def option.sel
    sample_server
  by (simp add: sample_dates sample_to isSameOrAfter_def string_eval)

lemma latest_fetch:
  "emails (fst (fetchEmails sample_world latest_only_query EmailService_new)) = [sample_message 4]"
  unfolding fetchEmails_def fetchEmailsPOP3_def Let_def latest_query
  by (simp add: connectPOP3_def sample_server emailList_of_def latest_query
        latest_details latest_filters)

lemma sample_rounds:
  "isl (pop3_round sample_world connected_pop3 (sample_entries ! 2))"
  "\<forall>j<length sample_entries. j \<noteq> 2 \<longrightarrow>
      \<not> isl (pop3_round sample_world connected_pop3 (sample_entries ! j))"
proof -
  have c: "pop3 connected_pop3" by (simp add: connected_pop3_def)
  show "isl (pop3_round sample_world connected_pop3 (sample_entries ! 2))"
    by (simp add: sample_entries_def sample_round_fails[OF c])
  show "\<forall>j<length sample_entries. j \<noteq> 2 \<longrightarrow>
      \<not> isl (pop3_round sample_world connected_pop3 (sample_entries ! j))"
  proof (intro allI impI)
    fix j assume "j < length sample_entries" and "j \<noteq> 2"
    then have "j = 0 \<or> j = 1 \<or> j = 3" by (auto simp: sample_entries_def)
    then show "\<not> isl (pop3_round sample_world connected_pop3 (sample_entries ! j))"
      by (auto simp: sample_entries_def sample_round[OF _ _ c])
  qed
qed

lemma set_sort_newest_first: "set (sort_newest_first es) = set es"
  by (simp add: sort_newest_first_def)

lemma fetchEmails_cases:
  "(fetchEmailsPOP3 w q (fetch_cacheKey q) st = (Inr (fst (fetchEmails w q st)), snd (fetchEmails w q st))
    \<or> fetchEmailsIMAP w q (fetch_cacheKey q) st = (Inr (fst (fetchEmails w q st)), snd (fetchEmails w q st)))
   \<or> (\<exists>err st1.
         ((protocol q = Some POP3 \<and> fetchEmailsPOP3 w q (fetch_cacheKey q) st = (Inl err, st1))
          \<or> (protocol q \<noteq> Some POP3 \<and> fetchEmailsIMAP w q (fetch_cacheKey q) st = (Inl err, st1)))
         \<and> fetchEmails w q st
             = (\<lparr> success = False, emails = [], total = 0, message = msg_fetch_failed err \<rparr>,
                disconnect st1))"
  by (auto simp: fetchEmails_def Let_def split: prod.splits sum.splits option.splits)

lemma length_parse_fetched: "length (parse_fetched w ms acc) \<le> length acc + length ms"
proof (induction ms arbitrary: acc)
  case Nil
  then show ?case by simp
next
  case (Cons m ms)
  obtain seqno buffer where m: "m = (seqno, buffer)" by (cases m)
  show ?case
  proof (cases "w_simpleParser w buffer")
    case (Inl err)
    with Cons[of acc] m show ?thesis by simp
  next
    case (Inr parsed)
    with Cons[of "acc @ [parseEmailMessage (w_uuid w seqno) (w_now w) parsed seqno]"] m
    show ?thesis by simp
  qed
qed

lemma length_map_filter: "length (List.map_filter f xs) \<le> length xs"
  unfolding List.map_filter_def by simp

lemma length_sort_newest_first: "length (sort_newest_first es) = length es"
  by (simp add: sort_newest_first_def)

lemma fetchEmailDetails_length:
  "fetchEmailDetails w st uids = Inr fetched \<Longrightarrow> length fetched \<le> length uids"
  using length_parse_fetched[of w "List.map_filter (w_mailbox w) uids" "[]"]
    length_map_filter[of "w_mailbox w" uids]
  by (auto simp: fetchEmailDetails_def length_sort_newest_first split: if_splits option.splits)

lemma length_imap_since_filter: "length (imap_since_filter w q es) \<le> length es"
  by (simp add: imap_since_filter_def)

lemma positive_limit: "limit q = Some L \<Longrightarrow> 0 < L \<Longrightarrow> limit_or_10 q = L"
  by (simp add: limit_or_10_def)

lemma fetchEmailsIMAP_length:
  assumes "fetchEmailsIMAP w q key st = (Inr r, st')"
  shows "length (emails r) \<le> limit_or_10 q"
proof -
  have step: "length (imap_since_filter w q fetched) \<le> limit_or_10 q"
    if "fetchEmailDetails w st1 (take (limit_or_10 q) ids) = Inr fetched" for st1 ids fetched
    using fetchEmailDetails_length[OF that] length_imap_since_filter[of w q fetched] by simp
  show ?thesis
    using assms step
    by (auto simp: fetchEmailsIMAP_def Let_def split: prod.splits option.splits sum.splits if_splits)
qed

lemma length_pop3_loop:
  "length (fst (pop3_loop w st xs acc)) \<le> length (fst acc) + length xs"
proof (induction xs arbitrary: acc)
  case Nil
  then show ?case by simp
next
  case (Cons x xs)
  obtain es logged where acc: "acc = (es, logged)" by (cases acc)
  show ?case
  proof (cases "pop3_round w st x")
    case (Inl err)
    with Cons[of "(es, logged @ [msgNumber x])"] acc show ?thesis by simp
  next
    case (Inr m)
    with Cons[of "(es @ [m], logged)"] acc show ?thesis by simp
  qed
qed

lemma fetchPOP3EmailDetails_length:
  "length (fst (fetchPOP3EmailDetails w st xs)) \<le> length xs"
  using length_pop3_loop[of w st xs "([], [])"]
  by (cases "pop3_loop w st xs ([], [])")
     (simp add: fetchPOP3EmailDetails_def length_sort_newest_first)

lemma length_pop3_filters:
  "length (to_filter q (from_filter q (pop3_time_filter w q es))) \<le> length es"
proof -
  have "length (pop3_time_filter w q es) \<le> length es"
    by (simp add: pop3_time_filter_def split: option.splits)
  moreover have "length (from_filter q xs) \<le> length xs" for xs
    by (simp add: from_filter_def)
  moreover have "length (to_filter q xs) \<le> length xs" for xs
    by (simp add: to_filter_def)
  ultimately show ?thesis
    by (meson order_trans)
qed

lemma fetchEmailsPOP3_length:
  assumes "fetchEmailsPOP3 w q key st = (Inr r, st')"
  shows "length (emails r) \<le> limit_or_10 q"
proof -
  have step: "length (to_filter q (from_filter q (pop3_time_filter w q
        (fst (fetchPOP3EmailDetails w st1 (rev (drop (length xs - limit_or_10 q) xs)))))))
      \<le> limit_or_10 q" for st1 xs
    using length_pop3_filters[of q w "fst (fetchPOP3EmailDetails w st1 (rev (drop (length xs - limit_or_10 q) xs)))"]
      fetchPOP3EmailDetails_length[of w st1 "rev (drop (length xs - limit_or_10 q) xs)"]
    by simp
  show ?thesis
    using assms step
    by (auto simp: fetchEmailsPOP3_def Let_def split: prod.splits option.splits sum.splits if_splits)
qed

lemma latest_valid: "validateEmailQuery sample_joi latest_only_query = Inr latest_only_query"
proof -
  have s: "rx_matches since_format (js ''2025/06/08 22:03'')"
    unfolding since_format_def by (simp add: js_def is_digit_def)
  have f: "failed_rules sample_joi latest_only_query = []"
    unfolding failed_rules_def latest_only_query_def inbox_query_def sample_joi_def
    by (simp add: s) (simp add: js_def)
  show ?thesis
    unfolding validateEmailQuery_def f
    by (simp add: latest_only_query_def inbox_query_def)
qed

lemma latest_response:
  "resp_data (fst (controller_fetchEmails sample_joi sample_world latest_only_query EmailService_new))
     = Some (fst (fetchEmails sample_world latest_only_query EmailService_new))"
  by (simp add: controller_fetchEmails_def latest_valid split: prod.splits)

lemma service_limit:
  assumes "limit q = Some L" and "0 < L"
  shows "length (emails (fst (fetchEmails w q st))) \<le> L"
proof -
  consider
      (pop3) "fetchEmailsPOP3 w q (fetch_cacheKey q) st
                = (Inr (fst (fetchEmails w q st)), snd (fetchEmails w q st))"
    | (imap) "fetchEmailsIMAP w q (fetch_cacheKey q) st
                = (Inr (fst (fetchEmails w q st)), snd (fetchEmails w q st))"
    | (failed) "emails (fst (fetchEmails w q st)) = []"
    using fetchEmails_cases[of w q st] by auto
  then show ?thesis
  proof cases
    case pop3
    from fetchEmailsPOP3_length[OF this] show ?thesis
      by (simp add: positive_limit[OF assms])
  next
    case imap
    from fetchEmailsIMAP_length[OF this] show ?thesis
      by (simp add: positive_limit[OF assms])
  next
    case failed
    then show ?thesis by simp
  qed
qed

text \<open>
  A request that passes the validation has a limit between 1 and 100; a limit of 0
  fails the validation, and the service itself would read it as no limit given.
\<close>

lemma validated_limit:
  assumes "validateEmailQuery joi q = Inr v"
  shows "\<exists>n. limit v = Some n \<and> 1 \<le> n \<and> n \<le> 100 \<and> (limit q = Some n \<or> limit q = None \<and> n = 10)"
proof -
  have ok: "failed_rules joi q = []"
    using assms by (auto simp: validateEmailQuery_def split: if_splits)
  have v: "limit v = Some (case limit q of None \<Rightarrow> 10 | Some n \<Rightarrow> n)"
    using assms by (auto simp: validateEmailQuery_def split: if_splits)
  show ?thesis
  proof (cases "limit q")
    case None
    with v show ?thesis by simp
  next
    case (Some n)
    with ok have "1 \<le> n \<and> n \<le> 100"
      by (auto simp: failed_rules_def split: if_splits)
    with v Some show ?thesis by simp
  qed
qed

lemma zero_limit_rejected:
  assumes "limit q = Some 0"
  shows "resp_data (fst (controller_fetchEmails joi w q st)) = None"
proof -
  have "LimitMin \<in> set (failed_rules joi q)"
    using assms by (simp add: failed_rules_def)
  then have "failed_rules joi q \<noteq> []" by auto
  then show ?thesis
    by (simp add: controller_fetchEmails_def validateEmailQuery_def)
qed

lemma zero_limit_is_default: "limit q = Some 0 \<Longrightarrow> limit_or_10 q = 10"
  by (simp add: limit_or_10_def)

lemma endpoint_limit:
  assumes "limit q = Some L"
  shows "case resp_data (fst (controller_fetchEmails joi w q st)) of
           None \<Rightarrow> True | Some r \<Rightarrow> length (emails r) \<le> L"
proof (cases "validateEmailQuery joi q")
  case (Inl err)
  then show ?thesis by (simp add: controller_fetchEmails_def)
next
  case (Inr v)
  from validated_limit[OF Inr] assms have l: "limit v = Some L" "0 < L" by auto
  from service_limit[OF l, of w st] show ?thesis
    by (auto simp: controller_fetchEmails_def Inr split: prod.splits)
qed

text \<open>
  C5. A fetch with limit \<open>L\<close> returns at most \<open>L\<close> messages under either protocol,
  whatever the search matched and whatever the mailbox holds: the service does so for
  every \<open>L\<close> of at least 1, and the fetch endpoint, which validates the request first,
  for every \<open>L\<close>.
\<close>

theorem fetch_respects_limit:
  assumes "limit q = Some L"
  shows "(0 < L \<longrightarrow> length (emails (fst (fetchEmails w q st))) \<le> L)
       \<and> (case resp_data (fst (controller_fetchEmails joi w q st)) of
             None \<Rightarrow> True | Some r \<Rightarrow> length (emails r) \<le> L)"
  using service_limit[OF assms] endpoint_limit[OF assms] by blast

theorem fetch_respects_limit_witness:
  "limit latest_only_query = Some 1 \<and> (0::nat) < 1
   \<and> length (emails (fst (fetchEmails sample_world latest_only_query EmailService_new))) \<le> 1
   \<and> emails (fst (fetchEmails sample_world latest_only_query EmailService_new))
       = [sample_message 4]
   \<and> map_option emails (resp_data (fst (controller_fetchEmails sample_joi sample_world
         latest_only_query EmailService_new))) = Some [sample_message 4]"
proof -
  have l: "limit latest_only_query = Some 1"
    by (simp add: latest_only_query_def)
  from fetch_respects_limit [OF l, of sample_world EmailService_new sample_joi] show ?thesis
    by (simp add: l latest_fetch latest_response)
qed







lemma pop3_loop_eq:
  "pop3_loop w st xs (es, logged)
     = (es @ List.map_filter (\<lambda>x. case pop3_round w st x of Inr m \<Rightarrow> Some m | Inl err \<Rightarrow> None) xs,
        logged @ map msgNumber (filter (\<lambda>x. isl (pop3_round w st x)) xs))"
proof (induction xs arbitrary: es logged)
  case Nil
  then show ?case by simp
next
  case (Cons x xs)
  then show ?case
    by (cases "pop3_round w st x") simp_all
qed

lemma map_filter_app: "List.map_filter f (xs @ ys) = List.map_filter f xs @ List.map_filter f ys"
  by (simp add: List.map_filter_def)

lemma map_filter_all_succeed:
  "\<forall>x \<in> set ys. \<not> isl (f x) \<Longrightarrow>
   List.map_filter (\<lambda>x. case f x of Inr m \<Rightarrow> Some m | Inl err \<Rightarrow> None) ys = map (\<lambda>x. projr (f x)) ys"
proof (induction ys)
  case Nil
  then show ?case by simp
next
  case (Cons y ys)
  then show ?case by (cases "f y") simp_all
qed

lemma others_succeed:
  assumes "i < length xs" and "\<forall>j<length xs. j \<noteq> i \<longrightarrow> \<not> P (xs ! j)"
  shows "\<forall>x \<in> set (take i xs). \<not> P x" and "\<forall>x \<in> set (drop (Suc i) xs). \<not> P x"
proof -
  show "\<forall>x \<in> set (take i xs). \<not> P x"
  proof
    fix x assume "x \<in> set (take i xs)"
    then obtain j where "j < length (take i xs)" "take i xs ! j = x"
      by (auto simp: in_set_conv_nth)
    with assms show "\<not> P x" by auto
  qed
  show "\<forall>x \<in> set (drop (Suc i) xs). \<not> P x"
  proof
    fix x assume "x \<in> set (drop (Suc i) xs)"
    then obtain j where j: "j < length (drop (Suc i) xs)" "drop (Suc i) xs ! j = x"
      by (auto simp: in_set_conv_nth)
    then have "Suc i + j < length xs" "xs ! (Suc i + j) = x" by auto
    with assms(2) show "\<not> P x" by (metis add_Suc less_add_Suc1 nat_neq_iff)
  qed
qed

text \<open>
  C8. When one round of the POP3 retrieval loop fails (the retrieval or the parsing of
  message \<open>i\<close>) and all other rounds succeed, the loop logs that message number and
  returns the \<open>N - 1\<close> other messages, parsed, newest first.
\<close>

theorem one_failure_is_skipped:
  assumes "i < length emailList"
    and "isl (pop3_round w st (emailList ! i))"
    and "\<forall>j<length emailList. j \<noteq> i \<longrightarrow> \<not> isl (pop3_round w st (emailList ! j))"
  shows "length (fst (fetchPOP3EmailDetails w st emailList)) = length emailList - 1
       \<and> mset (fst (fetchPOP3EmailDetails w st emailList))
           = mset (map (\<lambda>x. projr (pop3_round w st x)) (take i emailList @ drop (Suc i) emailList))
       \<and> sorted (map (\<lambda>e. - date e) (fst (fetchPOP3EmailDetails w st emailList)))
       \<and> snd (fetchPOP3EmailDetails w st emailList) = [msgNumber (emailList ! i)]"
proof -
  let ?P = "\<lambda>x. isl (pop3_round w st x)"
  let ?pick = "\<lambda>x. case pop3_round w st x of Inr m \<Rightarrow> Some m | Inl err \<Rightarrow> None"
  let ?others = "take i emailList @ drop (Suc i) emailList"
  note ok = others_succeed[where P = ?P, OF assms(1,3)]
  have split: "emailList = take i emailList @ [emailList ! i] @ drop (Suc i) emailList"
    using assms(1) by (simp add: id_take_nth_drop)
  have failed: "List.map_filter ?pick [emailList ! i] = []"
    using assms(2) by (cases "pop3_round w st (emailList ! i)") simp_all
  have "List.map_filter ?pick emailList
      = List.map_filter ?pick (take i emailList) @ List.map_filter ?pick [emailList ! i]
        @ List.map_filter ?pick (drop (Suc i) emailList)"
    by (subst split) (simp only: map_filter_app)
  then have picked: "List.map_filter ?pick emailList = map (\<lambda>x. projr (pop3_round w st x)) ?others"
    using map_filter_all_succeed[OF ok(1)] map_filter_all_succeed[OF ok(2)] failed by simp
  have "filter ?P emailList
      = filter ?P (take i emailList) @ filter ?P [emailList ! i] @ filter ?P (drop (Suc i) emailList)"
    by (subst split) (simp only: filter_append)
  then have logged: "filter ?P emailList = [emailList ! i]"
    using ok assms(2) by (simp add: filter_empty_conv)
  have res: "fetchPOP3EmailDetails w st emailList
      = (sort_newest_first (map (\<lambda>x. projr (pop3_round w st x)) ?others), [msgNumber (emailList ! i)])"
    by (simp add: fetchPOP3EmailDetails_def pop3_loop_eq picked logged)
  have len: "length ?others = length emailList - 1"
    using assms(1) by simp
  show ?thesis
    unfolding res using len by (simp add: sort_newest_first_def)
qed


theorem one_failure_is_skipped_witness:
  "2 < length sample_entries
   \<and> isl (pop3_round sample_world connected_pop3 (sample_entries ! 2))
   \<and> length (fst (fetchPOP3EmailDetails sample_world connected_pop3 sample_entries)) = 3
   \<and> snd (fetchPOP3EmailDetails sample_world connected_pop3 sample_entries) = [2]
   \<and> fst (fetchPOP3EmailDetails sample_world connected_pop3 sample_entries)
       = [sample_message 4, sample_message 3, sample_message 1]"
proof -
  have c: "pop3 connected_pop3" by (simp add: connected_pop3_def)
  have n: "2 < length sample_entries" by (simp add: sample_entries_def)
  from one_failure_is_skipped [OF n sample_rounds]
  have "length (fst (fetchPOP3EmailDetails sample_world connected_pop3 sample_entries))
          = length sample_entries - 1"
    and "snd (fetchPOP3EmailDetails sample_world connected_pop3 sample_entries)
          = [msgNumber (sample_entries ! 2)]"
    by simp_all
  then show ?thesis
    using n sample_rounds(1) by (simp add: sample_details[OF c])
qed









text \<open>Failures of the single steps, and the state a fetch starts from.\<close>

lemma connection_failure_imap:
  "protocol q \<noteq> Some POP3 \<Longrightarrow> w_imap_connect w = Some err \<Longrightarrow>
   fst (fetchEmails w q st) = \<lparr> success = False, emails = [], total = 0, message = msg_fetch_failed err \<rparr>"
  by (auto simp: fetchEmails_def fetchEmailsIMAP_def connectIMAP_def Let_def split: option.splits)

lemma connection_failure_pop3:
  "protocol q = Some POP3 \<Longrightarrow> w_pop3_connect w = Some err \<Longrightarrow>
   fst (fetchEmails w q st) = \<lparr> success = False, emails = [], total = 0, message = msg_fetch_failed err \<rparr>"
  by (auto simp: fetchEmails_def fetchEmailsPOP3_def connectPOP3_def Let_def split: option.splits)

lemma listing_failure_pop3:
  "protocol q = Some POP3 \<Longrightarrow> w_pop3_connect w = None \<Longrightarrow> w_pop3_list w = Inr ev \<Longrightarrow> \<not> resp ev \<Longrightarrow>
   fst (fetchEmails w q st)
     = \<lparr> success = False, emails = [], total = 0,
         message = msg_fetch_failed (err_list_failed (list_data ev)) \<rparr>"
  by (auto simp: fetchEmails_def fetchEmailsPOP3_def connectPOP3_def Let_def split: option.splits)

lemma protocol_error_pop3:
  "protocol q = Some POP3 \<Longrightarrow> w_pop3_connect w = None \<Longrightarrow> w_pop3_list w = Inl err \<Longrightarrow>
   fst (fetchEmails w q st) = \<lparr> success = False, emails = [], total = 0, message = msg_fetch_failed err \<rparr>"
  by (auto simp: fetchEmails_def fetchEmailsPOP3_def connectPOP3_def Let_def split: option.splits)

lemma search_failure_imap:
  "protocol q \<noteq> Some POP3 \<Longrightarrow> w_imap_connect w = None \<Longrightarrow> w_openBox w (mail_box_or_INBOX q) = None \<Longrightarrow>
   w_search w (buildSearchCriteria w q) = Inl err \<Longrightarrow>
   fst (fetchEmails w q st) = \<lparr> success = False, emails = [], total = 0, message = msg_fetch_failed err \<rparr>"
  by (auto simp: fetchEmails_def fetchEmailsIMAP_def connectIMAP_def openBox_def searchEmails_def Let_def
        split: option.splits)








end
